theory Spec2Isabelle
  imports Main
begin

section \<open>Data model\<close>

text \<open>
  The spooler keeps two global tables: \<^verbatim>\<open>printer_registry[MAX_PRINTERS]\<close> with
  \<^verbatim>\<open>number_of_registered_printers\<close> (printer_manager.c) and \<^verbatim>\<open>job_spool[MAX_JOBS]\<close>
  with \<^verbatim>\<open>job_count\<close> (job_manager.c). Both arrays are modelled as total functions
  from the index to the slot, next to the counter that delimits the live prefix, so that a
  write into a slot beyond the counter is visible in the model as it is in memory.

  The enumerations of presi.h are datatypes with the constructors' C names.
\<close>

datatype PRINTER_STATUS = PRINTER_DISABLED | PRINTER_IDLE | PRINTER_BUSY

datatype JOB_STATUS =
  JOB_CREATED | JOB_RUNNING | JOB_PAUSED | JOB_FINISHED | JOB_ABORTED | JOB_DELETED

datatype signal = SIGSTOP | SIGCONT | SIGTERM

text \<open>
  A \<^verbatim>\<open>FILE_TYPE *\<close> handed out by conversions.h is modelled by the address of the object
  and the name stored in it: the code compares such pointers both by address
  (\<^verbatim>\<open>printer->type != from_type\<close>) and by name (\<^verbatim>\<open>strcmp\<close>).
\<close>

record FILE_TYPE =
  ft_addr :: nat
  ft_name :: string

text \<open>\<^verbatim>\<open>struct printer\<close> (printer_struct.h); the reserved field \<^verbatim>\<open>other\<close> is always NULL.\<close>

record PRINTER =
  p_name :: string
  p_type :: FILE_TYPE
  p_status :: PRINTER_STATUS

text \<open>
  \<^verbatim>\<open>struct job\<close> (job_struct.h). A \<^verbatim>\<open>PRINTER *\<close> always points into the registry, so
  it is the index of the entry, \<open>None\<close> for NULL. A \<^verbatim>\<open>char *\<close> that may be NULL is a
  \<open>string option\<close>. \<^verbatim>\<open>pid_t\<close> and \<^verbatim>\<open>time_t\<close> are integers; the sentinel of \<^verbatim>\<open>pgid\<close>
  is \<open>-1\<close>.
\<close>

record JOB =
  j_id :: int
  input_file_path :: "string option"
  target_printer :: "nat option"
  j_status :: JOB_STATUS
  pgid :: int
  created_at :: int
  status_changed_at :: int

text \<open>The notifications of the event sink (the \<^verbatim>\<open>sf_*\<close> functions of presi.h).\<close>

datatype event =
  SF_cmd_ok
| SF_cmd_error string
| SF_printer_defined string string
| SF_printer_status string PRINTER_STATUS
| SF_job_created int "string option" string
| SF_job_status int JOB_STATUS
| SF_job_started int string int "string list"
| SF_job_finished int int
| SF_job_aborted int int
| SF_job_deleted int

text \<open>
  The status word filled in by \<^verbatim>\<open>waitpid\<close>, with the macros of \<^verbatim>\<open>sys/wait.h\<close> that
  the dispatcher tests.
\<close>

datatype wstatus = Stopped int | Continued | Exited int | Signaled int

fun WIFSTOPPED :: "wstatus \<Rightarrow> bool" where
  "WIFSTOPPED (Stopped _) = True"
| "WIFSTOPPED _ = False"

fun WIFCONTINUED :: "wstatus \<Rightarrow> bool" where
  "WIFCONTINUED Continued = True"
| "WIFCONTINUED _ = False"

fun WIFEXITED :: "wstatus \<Rightarrow> bool" where
  "WIFEXITED (Exited _) = True"
| "WIFEXITED _ = False"

fun WIFSIGNALED :: "wstatus \<Rightarrow> bool" where
  "WIFSIGNALED (Signaled _) = True"
| "WIFSIGNALED _ = False"

fun WEXITSTATUS :: "wstatus \<Rightarrow> int" where
  "WEXITSTATUS (Exited c) = c"
| "WEXITSTATUS _ = 0"

fun WTERMSIG :: "wstatus \<Rightarrow> int" where
  "WTERMSIG (Signaled n) = n"
| "WTERMSIG _ = 0"

text \<open>
  The state of the spooler process and of the part of its surroundings that it reads.
  \<^item> \<open>registry\<close>: the file-type and conversion registry owned by conversions.h, of a type
    \<open>'r\<close> left open;
  \<^item> \<open>printer_registry\<close>, \<open>number_of_registered_printers\<close>, \<open>job_spool\<close>, \<open>job_count\<close>,
    \<open>child_signal_received\<close>: the static variables of the three modules;
  \<^item> \<open>pending\<close>: the child status changes the kernel has not reported yet, in the order
    \<^verbatim>\<open>waitpid\<close> will report them;
  \<^item> \<open>fork_results\<close>: what the next calls of \<^verbatim>\<open>fork\<close> return in the spooler process;
  \<^item> \<open>clock\<close>: what \<^verbatim>\<open>time(NULL)\<close> returns;
  \<^item> \<open>events\<close>: the calls of the event sink so far, \<open>out\<close>: the lines written to the
    stream \<^verbatim>\<open>out\<close>, \<open>signals\<close>: the calls of \<^verbatim>\<open>killpg\<close> so far.
\<close>

record 'r spooler =
  registry :: 'r
  printer_registry :: "nat \<Rightarrow> PRINTER"
  number_of_registered_printers :: nat
  job_spool :: "nat \<Rightarrow> JOB"
  job_count :: nat
  child_signal_received :: bool
  pending :: "(int \<times> wstatus) list"
  fork_results :: "int list"
  clock :: int
  events :: "event list"
  out :: "string list"
  signals :: "(int \<times> signal) list"

text \<open>
  What the code uses and this repository does not define: the limits and name table of
  presi.h, the registry functions of conversions.h, and the result of \<^verbatim>\<open>killpg\<close>.
  A \<^verbatim>\<open>CONVERSION\<close> is its \<^verbatim>\<open>cmd_and_args\<close>; a conversion path is a list of them, \<open>None\<close>
  for NULL.
\<close>

record 'r env =
  MAX_JOBS :: nat
  MAX_PRINTERS :: nat
  printer_status_names :: "PRINTER_STATUS \<Rightarrow> string"
  infer_file_type :: "'r \<Rightarrow> string option \<Rightarrow> FILE_TYPE option"
  find_type :: "'r \<Rightarrow> string \<Rightarrow> FILE_TYPE option"
  define_type :: "string \<Rightarrow> 'r \<Rightarrow> FILE_TYPE option \<times> 'r"
  define_conversion :: "string \<Rightarrow> string \<Rightarrow> string list \<Rightarrow> 'r \<Rightarrow> bool \<times> 'r"
  find_conversion_path :: "'r \<Rightarrow> string \<Rightarrow> string \<Rightarrow> string list list option"
  killpg_result :: "int \<Rightarrow> signal \<Rightarrow> int"

subsection \<open>Effects\<close>

definition sf :: "event \<Rightarrow> 'r spooler \<Rightarrow> 'r spooler" where
  "sf e s = s\<lparr>events := events s @ [e]\<rparr>"

text \<open>Every \<^verbatim>\<open>fprintf(out, ...)\<close> of the code writes one line; the line is kept without its newline.\<close>

definition fprintf_out :: "string \<Rightarrow> 'r spooler \<Rightarrow> 'r spooler" where
  "fprintf_out l s = s\<lparr>out := out s @ [l]\<rparr>"

definition killpg :: "int \<Rightarrow> signal \<Rightarrow> 'r spooler \<Rightarrow> 'r spooler" where
  "killpg pg sg s = s\<lparr>signals := signals s @ [(pg, sg)]\<rparr>"

definition upd_job :: "nat \<Rightarrow> (JOB \<Rightarrow> JOB) \<Rightarrow> 'r spooler \<Rightarrow> 'r spooler" where
  "upd_job i f s = s\<lparr>job_spool := (job_spool s)(i := f (job_spool s i))\<rparr>"

definition upd_printer :: "nat \<Rightarrow> (PRINTER \<Rightarrow> PRINTER) \<Rightarrow> 'r spooler \<Rightarrow> 'r spooler" where
  "upd_printer i f s = s\<lparr>printer_registry := (printer_registry s)(i := f (printer_registry s i))\<rparr>"

subsection \<open>Formatting and parsing of integers\<close>

fun string_of_nat :: "nat \<Rightarrow> string" where
  "string_of_nat n =
     (if n < 10 then [''0123456789'' ! n]
      else string_of_nat (n div 10) @ [''0123456789'' ! (n mod 10)])"

declare string_of_nat.simps [simp del]

text \<open>The conversion \<^verbatim>\<open>%d\<close> of \<^verbatim>\<open>fprintf\<close>.\<close>

definition string_of_int :: "int \<Rightarrow> string" where
  "string_of_int i = (if i < 0 then CHR ''-'' # string_of_nat (nat (- i)) else string_of_nat (nat i))"

text \<open>\<^verbatim>\<open>isspace\<close> in the C locale: space, \<^verbatim>\<open>\t \n \v \f \r\<close>.\<close>

definition isspace :: "char \<Rightarrow> bool" where
  "isspace c = (c = CHR '' '' \<or> c = CHR 0x09 \<or> c = CHR 0x0A \<or> c = CHR 0x0B
                \<or> c = CHR 0x0C \<or> c = CHR 0x0D)"

text \<open>The value of a decimal digit is its position in \<^verbatim>\<open>0123456789\<close>.\<close>

definition digit_value :: "char \<Rightarrow> int option" where
  "digit_value c =
     (if c \<in> set ''0123456789''
      then Some (int (length (takeWhile (\<lambda>d. d \<noteq> c) ''0123456789'')))
      else None)"

fun atoi_digits :: "string \<Rightarrow> int \<Rightarrow> int" where
  "atoi_digits [] acc = acc"
| "atoi_digits (c # cs) acc =
     (case digit_value c of None \<Rightarrow> acc | Some d \<Rightarrow> atoi_digits cs (10 * acc + d))"

text \<open>
  \<^verbatim>\<open>strtol(str, NULL, 10)\<close> of the C library, with a 64-bit \<^verbatim>\<open>long\<close>: leading white space,
  an optional sign, then the longest run of digits; \<open>0\<close> when there is none. A value outside
  \<^verbatim>\<open>long\<close> is replaced by \<^verbatim>\<open>LONG_MAX\<close> or \<^verbatim>\<open>LONG_MIN\<close>.
\<close>

definition LONG_MAX :: int where
  "LONG_MAX = 2 ^ 63 - 1"

definition LONG_MIN :: int where
  "LONG_MIN = - (2 ^ 63)"

definition strtol :: "string \<Rightarrow> int" where
  "strtol str =
     (let v = (case dropWhile isspace str of
                 [] \<Rightarrow> 0
               | c # cs \<Rightarrow>
                   if c = CHR ''-'' then - atoi_digits cs 0
                   else if c = CHR ''+'' then atoi_digits cs 0
                   else atoi_digits (c # cs) 0)
      in if v > LONG_MAX then LONG_MAX else if v < LONG_MIN then LONG_MIN else v)"

text \<open>The conversion from \<^verbatim>\<open>long\<close> to a 32-bit \<^verbatim>\<open>int\<close> keeps the low 32 bits, two's complement.\<close>

definition int_of_long :: "int \<Rightarrow> int" where
  "int_of_long v = (v + 2 ^ 31) mod 2 ^ 32 - 2 ^ 31"

text \<open>\<^verbatim>\<open>atoi\<close> of the C library is \<^verbatim>\<open>(int) strtol(str, NULL, 10)\<close>.\<close>

definition atoi :: "string \<Rightarrow> int" where
  "atoi str = int_of_long (strtol str)"

section \<open>printer_manager.c\<close>

definition get_printer_count :: "'r spooler \<Rightarrow> nat" where
  "get_printer_count s = number_of_registered_printers s"

text \<open>The linear search of \<^verbatim>\<open>get_printer_by_name\<close>, from index \<open>i\<close> on.\<close>

function get_printer_by_name_from :: "string \<Rightarrow> nat \<Rightarrow> 'r spooler \<Rightarrow> nat option" where
  "get_printer_by_name_from printer_name i s =
     (if i < number_of_registered_printers s then
        if p_name (printer_registry s i) = printer_name then Some i
        else get_printer_by_name_from printer_name (i + 1) s
      else None)"
  by pat_completeness auto
termination
  by (relation "measure (\<lambda>(n, i, s). number_of_registered_printers s - i)") auto

declare get_printer_by_name_from.simps [simp del]

definition get_printer_by_name :: "string \<Rightarrow> 'r spooler \<Rightarrow> nat option" where
  "get_printer_by_name printer_name s = get_printer_by_name_from printer_name 0 s"

definition get_printer_by_index :: "int \<Rightarrow> 'r spooler \<Rightarrow> nat option" where
  "get_printer_by_index index s =
     (if index < 0 \<or> index \<ge> int (number_of_registered_printers s) then None
      else Some (nat index))"

definition add_printer_to_system :: "'r env \<Rightarrow> string \<Rightarrow> string \<Rightarrow> 'r spooler \<Rightarrow> int \<times> 'r spooler" where
  "add_printer_to_system env printer_name file_type_name s =
     (if number_of_registered_printers s \<ge> MAX_PRINTERS env then (- 1, s)
      else if get_printer_by_name printer_name s \<noteq> None then (- 1, s)
      else case find_type env (registry s) file_type_name of
        None \<Rightarrow> (- 1, s)
      | Some resolved_file_type \<Rightarrow>
          let n = number_of_registered_printers s;
              s1 = upd_printer n (\<lambda>_. \<lparr>p_name = printer_name, p_type = resolved_file_type,
                                       p_status = PRINTER_DISABLED\<rparr>) s;
              s2 = s1\<lparr>number_of_registered_printers := n + 1\<rparr>
          in (0, sf (SF_printer_defined printer_name (ft_name resolved_file_type)) s2))"

text \<open>
  The loop of \<^verbatim>\<open>select_compatible_printer\<close>, from index \<open>i\<close> on: the first printer in
  registry order that is idle and either has the type's name or is the target of a
  conversion path is returned.
\<close>

function select_compatible_printer_from :: "'r env \<Rightarrow> FILE_TYPE \<Rightarrow> nat \<Rightarrow> 'r spooler \<Rightarrow> nat option" where
  "select_compatible_printer_from env from_type i s =
     (if i < get_printer_count s then
        case get_printer_by_index (int i) s of
          None \<Rightarrow> select_compatible_printer_from env from_type (i + 1) s
        | Some p \<Rightarrow>
            if p_status (printer_registry s p) \<noteq> PRINTER_IDLE
            then select_compatible_printer_from env from_type (i + 1) s
            else if ft_name (p_type (printer_registry s p)) = ft_name from_type then Some p
            else if find_conversion_path env (registry s) (ft_name from_type)
                      (ft_name (p_type (printer_registry s p))) \<noteq> None then Some p
            else select_compatible_printer_from env from_type (i + 1) s
      else None)"
  by pat_completeness auto
termination
  by (relation "measure (\<lambda>(e, t, i, s). get_printer_count s - i)") auto

declare select_compatible_printer_from.simps [simp del]

definition select_compatible_printer :: "'r env \<Rightarrow> FILE_TYPE option \<Rightarrow> 'r spooler \<Rightarrow> nat option" where
  "select_compatible_printer env from_type s =
     (case from_type of
        None \<Rightarrow> None
      | Some t \<Rightarrow> select_compatible_printer_from env t 0 s)"

section \<open>job_manager.c\<close>

text \<open>
  \<^verbatim>\<open>start_conversion_pipeline\<close> as the spooler sees it: one \<^verbatim>\<open>fork\<close>, whose negative
  result is reported as \<open>-1\<close> and whose positive result is the pid of the pipeline's master.
  The master and its stages run in other processes and share no memory with the spooler.
  When \<open>fork_results\<close> is used up, \<^verbatim>\<open>fork\<close> fails.
\<close>

definition start_conversion_pipeline ::
  "nat \<Rightarrow> string list list option \<Rightarrow> 'r spooler \<Rightarrow> int \<times> 'r spooler" where
  "start_conversion_pipeline job path s =
     (case fork_results s of
        [] \<Rightarrow> (- 1, s)
      | master # rest \<Rightarrow>
          if master < 0 then (- 1, s\<lparr>fork_results := rest\<rparr>)
          else (master, s\<lparr>fork_results := rest\<rparr>))"

definition job_manager_initialize :: "'r spooler \<Rightarrow> 'r spooler" where
  "job_manager_initialize s = s\<lparr>job_count := 0\<rparr>"

definition cleanup_job :: "nat \<Rightarrow> 'r spooler \<Rightarrow> 'r spooler" where
  "cleanup_job i s =
     upd_job i (\<lambda>j. j\<lparr>input_file_path := None, target_printer := None,
                       j_status := JOB_DELETED, pgid := - 1, created_at := 0,
                       status_changed_at := 0\<rparr>) s"

definition get_job_count :: "'r spooler \<Rightarrow> nat" where
  "get_job_count s = job_count s"

definition get_job_by_index :: "int \<Rightarrow> 'r spooler \<Rightarrow> nat option" where
  "get_job_by_index index s =
     (if index < 0 \<or> index \<ge> int (job_count s) then None else Some (nat index))"

text \<open>
  The statements that follow a successful launch, the same at the three places where a
  pipeline is started: the job gets the pid and becomes running, the printer becomes busy,
  and the three notifications are sent in this order.
\<close>

definition job_launched :: "nat \<Rightarrow> nat \<Rightarrow> int \<Rightarrow> string list \<Rightarrow> 'r spooler \<Rightarrow> 'r spooler" where
  "job_launched i p pid cmds s =
     (let s1 = upd_job i (\<lambda>j. j\<lparr>pgid := pid, j_status := JOB_RUNNING,
                                  status_changed_at := clock s\<rparr>) s;
          s2 = upd_printer p (\<lambda>q. q\<lparr>p_status := PRINTER_BUSY\<rparr>) s1;
          s3 = sf (SF_job_status (j_id (job_spool s i)) JOB_RUNNING) s2;
          s4 = sf (SF_printer_status (p_name (printer_registry s p)) PRINTER_BUSY) s3
      in sf (SF_job_started (j_id (job_spool s i)) (p_name (printer_registry s p)) pid cmds) s4)"

text \<open>\<^verbatim>\<open>cmds[i] = path[i]->cmd_and_args[0]\<close>.\<close>

definition cmd_names :: "string list list \<Rightarrow> string list" where
  "cmd_names path = map (\<lambda>c. case c of [] \<Rightarrow> [] | a # _ \<Rightarrow> a) path"

text \<open>The body of the loop of \<^verbatim>\<open>try_scheduling_jobs\<close> for the job at index \<open>i\<close>.\<close>

definition try_scheduling_job :: "'r env \<Rightarrow> nat \<Rightarrow> 'r spooler \<Rightarrow> 'r spooler" where
  "try_scheduling_job env i s =
     (case get_job_by_index (int i) s of
        None \<Rightarrow> s
      | Some ji \<Rightarrow>
        if j_status (job_spool s ji) \<noteq> JOB_CREATED then s
        else case infer_file_type env (registry s) (input_file_path (job_spool s ji)) of
          None \<Rightarrow> s
        | Some from_type \<Rightarrow>
          (case select_compatible_printer env (Some from_type) s of
             None \<Rightarrow> s
           | Some p \<Rightarrow>
             let s1 = upd_job ji (\<lambda>j. j\<lparr>target_printer := Some p\<rparr>) s in
             if ft_name from_type = ft_name (p_type (printer_registry s p)) then
               (case start_conversion_pipeline ji None s1 of (pid, s2) \<Rightarrow>
                  if pid < 0 then upd_job ji (\<lambda>j. j\<lparr>target_printer := None\<rparr>) s2
                  else job_launched ji p pid [''cat''] s2)
             else
               (case find_conversion_path env (registry s) (ft_name from_type)
                       (ft_name (p_type (printer_registry s p))) of
                  None \<Rightarrow> upd_job ji (\<lambda>j. j\<lparr>target_printer := None\<rparr>) s1
                | Some path \<Rightarrow>
                    (case start_conversion_pipeline ji (Some path) s1 of (pid, s2) \<Rightarrow>
                       if pid < 0 then upd_job ji (\<lambda>j. j\<lparr>target_printer := None\<rparr>) s2
                       else job_launched ji p pid (cmd_names path) s2))))"

lemma job_count_try_scheduling_job [simp]:
  "job_count (try_scheduling_job env i s) = job_count s"
  by (simp add: try_scheduling_job_def job_launched_def sf_def upd_job_def upd_printer_def
      start_conversion_pipeline_def Let_def split: option.split list.split prod.split)

function try_scheduling_jobs_from :: "'r env \<Rightarrow> nat \<Rightarrow> 'r spooler \<Rightarrow> 'r spooler" where
  "try_scheduling_jobs_from env i s =
     (if i < get_job_count s
      then try_scheduling_jobs_from env (i + 1) (try_scheduling_job env i s)
      else s)"
  by pat_completeness auto
termination
  by (relation "measure (\<lambda>(e, i, s). job_count s - i)") (auto simp: get_job_count_def)

declare try_scheduling_jobs_from.simps [simp del]

definition try_scheduling_jobs :: "'r env \<Rightarrow> 'r spooler \<Rightarrow> 'r spooler" where
  "try_scheduling_jobs env s = try_scheduling_jobs_from env 0 s"

text \<open>
  \<^verbatim>\<open>submit_print_job\<close>. Each early \<^verbatim>\<open>return -1\<close> is a branch that returns the state as it
  is at that point. The summary line that the function prints on \<^verbatim>\<open>stdout\<close> at the end
  changes no state and is not part of the model.
\<close>

definition submit_print_job ::
  "'r env \<Rightarrow> string option \<Rightarrow> nat option \<Rightarrow> 'r spooler \<Rightarrow> int \<times> 'r spooler" where
  "submit_print_job env file_path printer s =
     (if file_path = None \<or> job_count s \<ge> MAX_JOBS env then (- 1, s)
      else case infer_file_type env (registry s) file_path of
        None \<Rightarrow> (- 1, s)
      | Some from_type \<Rightarrow>
        if (case printer of
              None \<Rightarrow> False
            | Some p \<Rightarrow> p_status (printer_registry s p) \<noteq> PRINTER_IDLE)
        then (- 1, s)
        else if (case printer of
              None \<Rightarrow> False
            | Some p \<Rightarrow>
                ft_addr (p_type (printer_registry s p)) \<noteq> ft_addr from_type \<and>
                find_conversion_path env (registry s) (ft_name from_type)
                  (ft_name (p_type (printer_registry s p))) = None)
        then (- 1, s)
        else
          let n = job_count s;
              s1 = upd_job n (\<lambda>j. j\<lparr>j_id := int n, input_file_path := file_path,
                                     target_printer := printer, pgid := - 1,
                                     created_at := clock s, status_changed_at := clock s\<rparr>) s;
              s2 = sf (SF_job_created (int n) file_path (ft_name from_type)) s1
          in case printer of
               None \<Rightarrow>
                 let s3 = upd_job n (\<lambda>j. j\<lparr>j_status := JOB_CREATED\<rparr>) s2;
                     s4 = sf (SF_job_status (int n) JOB_CREATED) s3;
                     s5 = s4\<lparr>job_count := job_count s4 + 1\<rparr>
                 in (0, try_scheduling_jobs env s5)
             | Some p \<Rightarrow>
                 let path = find_conversion_path env (registry s) (ft_name from_type)
                              (ft_name (p_type (printer_registry s p)))
                 in case start_conversion_pipeline n path s2 of (pid, s3) \<Rightarrow>
                   if pid < 0 then (- 1, s3)
                   else
                     let cmds = (case path of None \<Rightarrow> [''cat''] | Some cs \<Rightarrow> cmd_names cs);
                         s4 = job_launched n p pid cmds s3
                     in (0, s4\<lparr>job_count := job_count s4 + 1\<rparr>))"

text \<open>The inner loop of the sweep: \<^verbatim>\<open>for (j = i + 1; j < job_count; j++) job_spool[j - 1] = job_spool[j]\<close>.\<close>

function compact_from :: "nat \<Rightarrow> 'r spooler \<Rightarrow> 'r spooler" where
  "compact_from j s =
     (if j < job_count s
      then compact_from (j + 1) (s\<lparr>job_spool := (job_spool s)(j - 1 := job_spool s j)\<rparr>)
      else s)"
  by pat_completeness auto
termination
  by (relation "measure (\<lambda>(j, s). job_count s - j)") auto

declare compact_from.simps [simp del]

lemma job_count_compact_from [simp]: "job_count (compact_from j s) = job_count s"
  by (induction j s rule: compact_from.induct) (subst compact_from.simps, simp)

text \<open>
  The outer loop of \<^verbatim>\<open>delete_expired_jobs_if_needed\<close>. \<^verbatim>\<open>difftime(now, t) >= 10.0\<close> on
  whole seconds is \<open>now - t \<ge> 10\<close>. After a removal the code decrements \<open>i\<close> and the loop
  header increments it, so the same index is examined again.
\<close>

definition delete_job_at :: "nat \<Rightarrow> 'r spooler \<Rightarrow> 'r spooler" where
  "delete_job_at i s =
     (let s1 = sf (SF_job_deleted (j_id (job_spool s i))) s;
          s2 = cleanup_job i s1;
          s3 = compact_from (i + 1) s2
      in s3\<lparr>job_count := job_count s3 - 1\<rparr>)"

lemma job_count_delete_job_at [simp]: "job_count (delete_job_at i s) = job_count s - 1"
  by (simp add: delete_job_at_def Let_def cleanup_job_def upd_job_def sf_def)

function delete_expired_from :: "int \<Rightarrow> nat \<Rightarrow> 'r spooler \<Rightarrow> 'r spooler" where
  "delete_expired_from now i s =
     (if i < job_count s then
        if (j_status (job_spool s i) = JOB_FINISHED \<or> j_status (job_spool s i) = JOB_ABORTED)
           \<and> now - status_changed_at (job_spool s i) \<ge> 10
        then delete_expired_from now i (delete_job_at i s)
        else delete_expired_from now (i + 1) s
      else s)"
  by pat_completeness auto
termination
  by (relation "measure (\<lambda>(now, i, s). job_count s - i)") auto

declare delete_expired_from.simps [simp del]

definition delete_expired_jobs_if_needed :: "'r spooler \<Rightarrow> 'r spooler" where
  "delete_expired_jobs_if_needed s = delete_expired_from (clock s) 0 s"

text \<open>
  \<^verbatim>\<open>cancel_job\<close>, \<^verbatim>\<open>pause_job\<close> and \<^verbatim>\<open>resume_job\<close> read the slot \<^verbatim>\<open>job_spool[job_id]\<close>.
  In \<^verbatim>\<open>cancel_job\<close> the code dereferences \<^verbatim>\<open>job->target_printer\<close> of a running or paused
  job without a test; both launch sites set the pointer before the status, so that it is
  never NULL there (lemma \<open>launched_job_has_printer\<close> below), and for a NULL pointer
  (undefined behaviour in C) the model leaves the registry alone.
\<close>

definition cancel_job :: "int \<Rightarrow> 'r spooler \<Rightarrow> int \<times> 'r spooler" where
  "cancel_job job_id s =
     (if job_id < 0 \<or> job_id \<ge> int (job_count s) then (- 1, s)
      else
        let i = nat job_id; job = job_spool s i in
        if j_status job = JOB_CREATED then
          (let s1 = upd_job i (\<lambda>j. j\<lparr>j_status := JOB_ABORTED, status_changed_at := clock s\<rparr>) s;
               s2 = sf (SF_job_status (j_id job) JOB_ABORTED) s1
           in (0, sf (SF_job_aborted (j_id job) 0) s2))
        else if j_status job \<noteq> JOB_RUNNING \<and> j_status job \<noteq> JOB_PAUSED then (- 1, s)
        else
          (let s1 = (if j_status job = JOB_PAUSED then killpg (pgid job) SIGCONT s else s);
               s2 = killpg (pgid job) SIGTERM s1;
               s3 = upd_job i (\<lambda>j. j\<lparr>j_status := JOB_ABORTED, status_changed_at := clock s\<rparr>) s2;
               s4 = (case target_printer job of
                       None \<Rightarrow> s3
                     | Some p \<Rightarrow> upd_printer p (\<lambda>q. q\<lparr>p_status := PRINTER_IDLE\<rparr>) s3);
               s5 = sf (SF_job_status (j_id job) JOB_ABORTED) s4;
               s6 = (case target_printer job of
                       None \<Rightarrow> s5
                     | Some p \<Rightarrow> sf (SF_printer_status (p_name (printer_registry s p)) PRINTER_IDLE) s5)
           in (0, sf (SF_job_aborted (j_id job) 0) s6)))"

definition pause_job :: "'r env \<Rightarrow> int \<Rightarrow> 'r spooler \<Rightarrow> int \<times> 'r spooler" where
  "pause_job env job_id s =
     (if job_id < 0 \<or> job_id \<ge> int (job_count s) then (- 1, s)
      else
        let job = job_spool s (nat job_id) in
        if j_status job \<noteq> JOB_RUNNING then (- 1, s)
        else (killpg_result env (pgid job) SIGSTOP, killpg (pgid job) SIGSTOP s))"

definition resume_job :: "'r env \<Rightarrow> int \<Rightarrow> 'r spooler \<Rightarrow> int \<times> 'r spooler" where
  "resume_job env job_id s =
     (if job_id < 0 \<or> job_id \<ge> int (job_count s) then (- 1, s)
      else
        let job = job_spool s (nat job_id) in
        if j_status job \<noteq> JOB_PAUSED then (- 1, s)
        else (killpg_result env (pgid job) SIGCONT, killpg (pgid job) SIGCONT s))"

section \<open>command_handler.c\<close>

definition squote :: string where
  "squote = [CHR 0x27]"

text \<open>The line \<^verbatim>\<open>PRINTER: id=%d, name=%s, type=%s, status=%s\<close>.\<close>

definition printer_line :: "'r env \<Rightarrow> int \<Rightarrow> PRINTER \<Rightarrow> string" where
  "printer_line env n p =
     ''PRINTER: id='' @ string_of_int n @ '', name='' @ p_name p @ '', type=''
       @ ft_name (p_type p) @ '', status='' @ printer_status_names env (p_status p)"

definition handle_type_command :: "'r env \<Rightarrow> string list \<Rightarrow> 'r spooler \<Rightarrow> 'r spooler" where
  "handle_type_command env argv s =
     (let argc = int (length argv) in
      if argc \<noteq> 2 then
        sf (SF_cmd_error ''Invalid number of arguments for 'type'.'')
          (fprintf_out (''Wrong number of args (given: '' @ string_of_int (argc - 1)
                          @ '', required: 1) for CLI command 'type'' @ squote) s)
      else case define_type env (argv ! 1) (registry s) of (type, r) \<Rightarrow>
        if type = None then
          sf (SF_cmd_error ''define_type() failed.'')
            (fprintf_out ''Command error: type (failed)'' (s\<lparr>registry := r\<rparr>))
        else sf SF_cmd_ok (s\<lparr>registry := r\<rparr>))"

text \<open>The allocation of the argument vector is taken to succeed.\<close>

definition handle_conversion_command :: "'r env \<Rightarrow> string list \<Rightarrow> 'r spooler \<Rightarrow> 'r spooler" where
  "handle_conversion_command env argv s =
     (let argc = int (length argv) in
      if argc < 4 then
        sf (SF_cmd_error ''Invalid number of arguments for 'conversion'.'')
          (fprintf_out (''Wrong number of args (given: '' @ string_of_int (argc - 1)
                          @ '', required: 3) for CLI command 'conversion'' @ squote) s)
      else
        let from_type = argv ! 1; to_type = argv ! 2;
            from = find_type env (registry s) from_type;
            to = find_type env (registry s) to_type
        in
        if from = None \<or> to = None then
          (let s1 = (if from = None
                     then fprintf_out (''Undeclared file type: '' @ from_type) s
                     else fprintf_out (''Undeclared file type: '' @ to_type) s);
               s2 = sf (SF_cmd_error ''conversion'') s1
           in fprintf_out ''Command error: conversion (failed)'' s2)
        else case define_conversion env from_type to_type (drop 3 argv) (registry s) of (conv, r) \<Rightarrow>
          if \<not> conv then
            sf (SF_cmd_error ''define_conversion() failed.'')
              (fprintf_out ''Command error: conversion (failed)'' (s\<lparr>registry := r\<rparr>))
          else sf SF_cmd_ok (s\<lparr>registry := r\<rparr>))"

definition handle_printer_command :: "'r env \<Rightarrow> string list \<Rightarrow> 'r spooler \<Rightarrow> 'r spooler" where
  "handle_printer_command env argv s =
     (let argc = int (length argv) in
      if argc \<noteq> 3 then
        sf (SF_cmd_error ''Invalid number of arguments for 'printer'.'')
          (fprintf_out (''Wrong number of args (given: '' @ string_of_int (argc - 1)
                          @ '', required: 2) for CLI command 'printer'' @ squote) s)
      else
        let name = argv ! 1; type = argv ! 2 in
        if find_type env (registry s) type = None then
          fprintf_out ''Command error: printer (failed)''
            (sf (SF_cmd_error ''printer'') (fprintf_out (''Unknown file type: '' @ type) s))
        else case add_printer_to_system env name type s of (rc, s1) \<Rightarrow>
          if rc \<noteq> 0 then
            fprintf_out ''Command error: printer (failed)'' (sf (SF_cmd_error ''printer'') s1)
          else
            let s2 = (case get_printer_by_name name s1 of
                        None \<Rightarrow> s1
                      | Some p \<Rightarrow>
                          fprintf_out (printer_line env (int (get_printer_count s1) - 1)
                                         (printer_registry s1 p)) s1)
            in sf SF_cmd_ok s2)"

definition handle_enable_command :: "'r env \<Rightarrow> string list \<Rightarrow> 'r spooler \<Rightarrow> 'r spooler" where
  "handle_enable_command env argv s =
     (let argc = int (length argv) in
      if argc \<noteq> 2 then
        sf (SF_cmd_error ''Invalid number of arguments for 'enable'.'')
          (fprintf_out (''Wrong number of args (given: '' @ string_of_int (argc - 1)
                          @ '', required: 1) for CLI command 'enable'' @ squote) s)
      else case get_printer_by_name (argv ! 1) s of
        None \<Rightarrow>
          fprintf_out ''Command error: enable (no printer)'' (sf (SF_cmd_error ''enable'') s)
      | Some p \<Rightarrow>
          let s1 = upd_printer p (\<lambda>q. q\<lparr>p_status := PRINTER_IDLE\<rparr>) s;
              s2 = sf (SF_printer_status (p_name (printer_registry s1 p))
                         (p_status (printer_registry s1 p))) s1;
              s3 = fprintf_out (printer_line env (int (get_printer_count s2) - 1)
                                  (printer_registry s2 p)) s2;
              s4 = try_scheduling_jobs env s3
          in sf SF_cmd_ok s4)"

function printers_from :: "'r env \<Rightarrow> nat \<Rightarrow> 'r spooler \<Rightarrow> 'r spooler" where
  "printers_from env i s =
     (if i < get_printer_count s then
        printers_from env (i + 1)
          (case get_printer_by_index (int i) s of
             None \<Rightarrow> s
           | Some p \<Rightarrow> fprintf_out (printer_line env (int i) (printer_registry s p)) s)
      else s)"
  by pat_completeness auto
termination
  by (relation "measure (\<lambda>(e, i, s). number_of_registered_printers s - i)")
    (auto simp: get_printer_count_def fprintf_out_def split: option.split)

declare printers_from.simps [simp del]

definition handle_printers_command :: "'r env \<Rightarrow> 'r spooler \<Rightarrow> 'r spooler" where
  "handle_printers_command env s = sf SF_cmd_ok (printers_from env 0 s)"

definition handle_print_command :: "'r env \<Rightarrow> string list \<Rightarrow> 'r spooler \<Rightarrow> 'r spooler" where
  "handle_print_command env argv s =
     (let argc = int (length argv) in
      if argc \<noteq> 2 then
        sf (SF_cmd_error ''Invalid number of arguments for 'print'.'')
          (fprintf_out (''Wrong number of args (given: '' @ string_of_int (argc - 1)
                          @ '', required: 1) for CLI command 'print'' @ squote) s)
      else if infer_file_type env (registry s) (Some (argv ! 1)) = None then
        sf (SF_cmd_error ''print'') (fprintf_out ''Command error: print (file type)'' s)
      else case submit_print_job env (Some (argv ! 1)) None s of (rc, s1) \<Rightarrow>
        if rc \<noteq> 0 then
          sf (SF_cmd_error ''submit_print_job() failed.'')
            (fprintf_out ''Command error: print (failed)'' s1)
        else sf SF_cmd_ok s1)"

function jobs_from :: "nat \<Rightarrow> 'r spooler \<Rightarrow> 'r spooler" where
  "jobs_from i s =
     (if i < get_job_count s then
        jobs_from (i + 1)
          (case get_job_by_index (int i) s of
             None \<Rightarrow> s
           | Some j \<Rightarrow> sf (SF_job_status (j_id (job_spool s j)) (j_status (job_spool s j))) s)
      else s)"
  by pat_completeness auto
termination
  by (relation "measure (\<lambda>(i, s). job_count s - i)")
    (auto simp: get_job_count_def sf_def split: option.split)

declare jobs_from.simps [simp del]

definition handle_jobs_command :: "'r spooler \<Rightarrow> 'r spooler" where
  "handle_jobs_command s = sf SF_cmd_ok (jobs_from 0 s)"

definition handle_cancel_command :: "string list \<Rightarrow> 'r spooler \<Rightarrow> 'r spooler" where
  "handle_cancel_command argv s =
     (let argc = int (length argv) in
      if argc \<noteq> 2 then
        sf (SF_cmd_error (''Invalid arguments for 'cancel'' @ squote))
          (fprintf_out ''Error: 'cancel' requires 1 argument: <job_id>'' s)
      else
        let job_id = atoi (argv ! 1) in
        case cancel_job job_id s of (rc, s1) \<Rightarrow>
          if rc \<noteq> 0 then
            sf (SF_cmd_error ''cancel_job() failed'')
              (fprintf_out (''Error: Failed to cancel job '' @ string_of_int job_id) s1)
          else sf SF_cmd_ok s1)"

definition handle_pause_command :: "'r env \<Rightarrow> string list \<Rightarrow> 'r spooler \<Rightarrow> 'r spooler" where
  "handle_pause_command env argv s =
     (let argc = int (length argv) in
      if argc \<noteq> 2 then
        sf (SF_cmd_error (''Invalid arguments for 'pause'' @ squote))
          (fprintf_out ''Error: 'pause' requires 1 argument: <job_id>'' s)
      else
        let job_id = atoi (argv ! 1) in
        case pause_job env job_id s of (rc, s1) \<Rightarrow>
          if rc \<noteq> 0 then
            sf (SF_cmd_error ''pause_job() failed'')
              (fprintf_out (''Error: Failed to pause job '' @ string_of_int job_id) s1)
          else sf SF_cmd_ok s1)"

definition handle_resume_command :: "'r env \<Rightarrow> string list \<Rightarrow> 'r spooler \<Rightarrow> 'r spooler" where
  "handle_resume_command env argv s =
     (let argc = int (length argv) in
      if argc \<noteq> 2 then
        sf (SF_cmd_error (''Invalid arguments for 'resume'' @ squote))
          (fprintf_out ''Error: 'resume' requires 1 argument: <job_id>'' s)
      else
        let job_id = atoi (argv ! 1) in
        case resume_job env job_id s of (rc, s1) \<Rightarrow>
          if rc \<noteq> 0 then
            sf (SF_cmd_error ''resume_job() failed'')
              (fprintf_out (''Error: Failed to resume job '' @ string_of_int job_id) s1)
          else sf SF_cmd_ok s1)"

definition command_list_summary :: string where
  "command_list_summary =
     ''Commands are: help quit type printer conversion printers jobs print cancel disable enable pause resume''"

definition handle_user_command :: "'r env \<Rightarrow> string list \<Rightarrow> 'r spooler \<Rightarrow> 'r spooler" where
  "handle_user_command env argv s =
     (let argc = int (length argv) in
      if argc = 0 then s
      else
        let cmd = argv ! 0 in
        if cmd = ''help'' then
          (if argc \<noteq> 1 then
             sf (SF_cmd_error (''Invalid number of arguments for 'help'' @ squote))
               (fprintf_out (''Wrong number of args (given: '' @ string_of_int (argc - 1)
                               @ '', required: 0) for CLI command 'help'' @ squote) s)
           else sf SF_cmd_ok (fprintf_out command_list_summary s))
        else if cmd = ''type'' then handle_type_command env argv s
        else if cmd = ''conversion'' then handle_conversion_command env argv s
        else if cmd = ''printer'' then handle_printer_command env argv s
        else if cmd = ''enable'' then handle_enable_command env argv s
        else if cmd = ''disable'' then
          sf (SF_cmd_error ''disable command not implemented'')
            (fprintf_out ''Command error: disable (not implemented)'' s)
        else if cmd = ''printers'' then handle_printers_command env s
        else if cmd = ''print'' then handle_print_command env argv s
        else if cmd = ''jobs'' then handle_jobs_command s
        else if cmd = ''cancel'' then handle_cancel_command argv s
        else if cmd = ''pause'' then handle_pause_command env argv s
        else if cmd = ''resume'' then handle_resume_command env argv s
        else if cmd = ''quit'' then sf SF_cmd_ok s
        else sf (SF_cmd_error ''Unknown command.'') (fprintf_out (''Unrecognized command: '' @ cmd) s))"

section \<open>cli.c\<close>

definition MAX_COMMAND_TOKENS :: nat where
  "MAX_COMMAND_TOKENS = 32"

definition sigchld_handler :: "'r spooler \<Rightarrow> 'r spooler" where
  "sigchld_handler s = s\<lparr>child_signal_received := True\<rparr>"

text \<open>
  The body of the inner loop of \<^verbatim>\<open>handle_child_status_updates\<close> for the reaped \<open>pid\<close>, its
  status word and the job at index \<open>i\<close>; the four tests are made in the order of the code.
\<close>

definition child_status_job :: "int \<Rightarrow> wstatus \<Rightarrow> nat \<Rightarrow> 'r spooler \<Rightarrow> 'r spooler" where
  "child_status_job pid status i s =
     (case get_job_by_index (int i) s of
        None \<Rightarrow> s
      | Some ji \<Rightarrow>
        let job = job_spool s ji in
        if pgid job \<noteq> pid then s
        else if WIFSTOPPED status then
          sf (SF_job_status (j_id job) JOB_PAUSED)
            (upd_job ji (\<lambda>j. j\<lparr>j_status := JOB_PAUSED\<rparr>) s)
        else if WIFCONTINUED status then
          sf (SF_job_status (j_id job) JOB_RUNNING)
            (upd_job ji (\<lambda>j. j\<lparr>j_status := JOB_RUNNING\<rparr>) s)
        else if WIFEXITED status then
          (let s1 = upd_job ji (\<lambda>j. j\<lparr>j_status := JOB_FINISHED, status_changed_at := clock s\<rparr>) s;
               s2 = sf (SF_job_status (j_id job) JOB_FINISHED) s1;
               s3 = sf (SF_job_finished (j_id job) (WEXITSTATUS status)) s2
           in case target_printer job of
                None \<Rightarrow> s3
              | Some p \<Rightarrow>
                  sf (SF_printer_status (p_name (printer_registry s p)) PRINTER_IDLE)
                    (upd_printer p (\<lambda>q. q\<lparr>p_status := PRINTER_IDLE\<rparr>) s3))
        else if WIFSIGNALED status then
          (let s1 = upd_job ji (\<lambda>j. j\<lparr>j_status := JOB_ABORTED, status_changed_at := clock s\<rparr>) s;
               s2 = sf (SF_job_status (j_id job) JOB_ABORTED) s1;
               s3 = sf (SF_job_aborted (j_id job) (WTERMSIG status)) s2
           in case target_printer job of
                None \<Rightarrow> s3
              | Some p \<Rightarrow>
                  sf (SF_printer_status (p_name (printer_registry s p)) PRINTER_IDLE)
                    (upd_printer p (\<lambda>q. q\<lparr>p_status := PRINTER_IDLE\<rparr>) s3))
        else s)"

lemma child_status_job_frame [simp]:
  "job_count (child_status_job pid status i s) = job_count s"
  "pending (child_status_job pid status i s) = pending s"
  by (simp_all add: child_status_job_def sf_def upd_job_def upd_printer_def Let_def
      split: option.split)

function child_status_jobs_from :: "int \<Rightarrow> wstatus \<Rightarrow> nat \<Rightarrow> 'r spooler \<Rightarrow> 'r spooler" where
  "child_status_jobs_from pid status i s =
     (if i < get_job_count s
      then child_status_jobs_from pid status (i + 1) (child_status_job pid status i s)
      else s)"
  by pat_completeness auto
termination
  by (relation "measure (\<lambda>(pid, status, i, s). job_count s - i)") (auto simp: get_job_count_def)

declare child_status_jobs_from.simps [simp del]

lemma pending_child_status_jobs_from [simp]:
  "pending (child_status_jobs_from pid status i s) = pending s"
  by (induction pid status i s rule: child_status_jobs_from.induct)
    (subst child_status_jobs_from.simps, simp)

text \<open>
  The loop \<^verbatim>\<open>while ((pid = waitpid(-1, &status, WNOHANG | WUNTRACED | WCONTINUED)) > 0)\<close>:
  \<^verbatim>\<open>waitpid\<close> takes the first pending status change; with none pending it returns a value
  that is not positive and the loop ends.
\<close>

function waitpid_loop :: "'r spooler \<Rightarrow> 'r spooler" where
  "waitpid_loop s =
     (case pending s of
        [] \<Rightarrow> s
      | (pid, status) # rest \<Rightarrow>
          if pid > 0
          then waitpid_loop (child_status_jobs_from pid status 0 (s\<lparr>pending := rest\<rparr>))
          else s)"
  by pat_completeness auto
termination
  by (relation "measure (\<lambda>s. length (pending s))") auto

declare waitpid_loop.simps [simp del]

definition handle_child_status_updates :: "'r env \<Rightarrow> 'r spooler \<Rightarrow> 'r spooler" where
  "handle_child_status_updates env s =
     (if \<not> child_signal_received s then s
      else try_scheduling_jobs env (waitpid_loop (s\<lparr>child_signal_received := False\<rparr>)))"

text \<open>
  \<^verbatim>\<open>split_input_line_into_tokens\<close>: \<open>line\<close> is the rest of the line, \<open>tokens\<close> the tokens
  stored so far. The terminating NUL that the code writes after a token consumes one
  character of the line.
\<close>

lemma length_dropWhile_less:
  "xs \<noteq> [] \<Longrightarrow> P (hd xs) \<Longrightarrow> length (dropWhile P xs) < length xs"
  by (cases xs) (auto simp: length_dropWhile_le less_Suc_eq_le)

function split_input_line_into_tokens_from :: "string \<Rightarrow> string list \<Rightarrow> string list" where
  "split_input_line_into_tokens_from line tokens =
     (if line = [] then tokens
      else
        let line1 = dropWhile isspace line in
        if line1 = [] then tokens
        else
          let tokens1 = tokens @ [takeWhile (\<lambda>c. \<not> isspace c) line1];
              line2 = dropWhile (\<lambda>c. \<not> isspace c) line1;
              line3 = (if line2 \<noteq> [] then tl line2 else line2)
          in if length tokens1 \<ge> MAX_COMMAND_TOKENS then tokens1
             else split_input_line_into_tokens_from line3 tokens1)"
  by pat_completeness auto
termination
proof (relation "measure (\<lambda>(line, tokens). length line)")
  show "wf (measure (\<lambda>(line, tokens). length line))"
    by simp
next
  fix line :: string and tokens x xa xb xc
  assume ne: "line \<noteq> []"
    and x: "x = dropWhile isspace line"
    and x_ne: "x \<noteq> []"
    and xb: "xb = dropWhile (\<lambda>c. \<not> isspace c) x"
    and xc: "xc = (if xb \<noteq> [] then tl xb else xb)"
  have "\<not> isspace (hd x)"
    using x x_ne hd_dropWhile by metis
  then have "length xb < length x"
    using xb x_ne by (simp add: length_dropWhile_less)
  moreover have "length xc \<le> length xb"
    using xc by simp
  moreover have "length x \<le> length line"
    using x by (simp add: length_dropWhile_le)
  ultimately show "((xc, xa), line, tokens) \<in> measure (\<lambda>(line, tokens). length line)"
    by simp
qed

declare split_input_line_into_tokens_from.simps [simp del]

definition split_input_line_into_tokens :: "string \<Rightarrow> string list" where
  "split_input_line_into_tokens line = split_input_line_into_tokens_from line []"

text \<open>
  One round of the loop of \<^verbatim>\<open>run_cli\<close>, from the point where \<^verbatim>\<open>input_line\<close> has been
  read. The result is \<open>Some r\<close> when the round returns \<open>r\<close> from \<^verbatim>\<open>run_cli\<close> and \<open>None\<close>
  when the loop goes on. The character \<^verbatim>\<open>input_line[0]\<close> of an empty line is NUL, which
  is not white space.
\<close>

definition run_cli_line :: "'r env \<Rightarrow> string \<Rightarrow> 'r spooler \<Rightarrow> int option \<times> 'r spooler" where
  "run_cli_line env input_line s =
     (let is_all_whitespace = list_all isspace input_line in
      if is_all_whitespace \<or> (input_line \<noteq> [] \<and> isspace (hd input_line)) then (None, s)
      else
        let tokens = split_input_line_into_tokens input_line;
            num_tokens = int (length tokens)
        in
        if num_tokens = 0 then
          (None, sf (SF_cmd_error ''Unrecognized command.'') (fprintf_out ''Unrecognized command: '' s))
        else if tokens ! 0 = ''quit'' then
          (if num_tokens \<noteq> 1 then
             (None, delete_expired_jobs_if_needed
                (sf (SF_cmd_error (''Invalid number of arguments for 'quit'' @ squote))
                   (fprintf_out (''Wrong number of args (given: '' @ string_of_int (num_tokens - 1)
                                   @ '', required: 0) for CLI command 'quit'' @ squote) s)))
           else (Some (- 1), sf SF_cmd_ok s))
        else (None, delete_expired_jobs_if_needed (handle_user_command env tokens s)))"

text \<open>
  The loop of \<^verbatim>\<open>run_cli\<close> over the lines that the reader delivers, until one round returns
  or the input ends. In interactive mode (\<^verbatim>\<open>in == stdin\<close>) the reader \<^verbatim>\<open>sf_readline\<close> runs
  the installed hook \<^verbatim>\<open>handle_child_status_updates\<close> before it blocks, and the end of the
  input returns \<open>-1\<close>; in batch mode \<^verbatim>\<open>fgets\<close> is used, no hook runs, and the end of the
  input returns \<open>0\<close>.
\<close>

fun run_cli :: "'r env \<Rightarrow> bool \<Rightarrow> string list \<Rightarrow> 'r spooler \<Rightarrow> int \<times> 'r spooler" where
  "run_cli env interactive [] s =
     (if interactive then (- 1, handle_child_status_updates env s) else (0, s))"
| "run_cli env interactive (input_line # rest) s =
     (let s0 = (if interactive then handle_child_status_updates env s else s) in
      case run_cli_line env input_line s0 of
        (Some r, s1) \<Rightarrow> (r, s1)
      | (None, s1) \<Rightarrow> run_cli env interactive rest s1)"

section \<open>A concrete installation\<close>

text \<open>
  An installation on which the operations are run: the types \<^verbatim>\<open>pdf\<close> and \<^verbatim>\<open>ps\<close> are
  declared, a file's type is the declared type named by the extension of its path, and one
  conversion \<^verbatim>\<open>ps2pdf\<close> leads from \<^verbatim>\<open>ps\<close> to \<^verbatim>\<open>pdf\<close>. The registry itself has no state
  here. The initial state is the zero-initialised static storage of the three modules.
\<close>

definition type_pdf :: FILE_TYPE where
  "type_pdf = \<lparr>ft_addr = 1, ft_name = ''pdf''\<rparr>"

definition type_ps :: FILE_TYPE where
  "type_ps = \<lparr>ft_addr = 2, ft_name = ''ps''\<rparr>"

definition demo_find_type :: "string \<Rightarrow> FILE_TYPE option" where
  "demo_find_type n = (if n = ''pdf'' then Some type_pdf else if n = ''ps'' then Some type_ps else None)"

definition demo_infer_file_type :: "string option \<Rightarrow> FILE_TYPE option" where
  "demo_infer_file_type path =
     (case path of
        None \<Rightarrow> None
      | Some f \<Rightarrow>
          if CHR ''.'' \<in> set f
          then demo_find_type (rev (takeWhile (\<lambda>c. c \<noteq> CHR ''.'') (rev f)))
          else None)"

definition demo_env :: "unit env" where
  "demo_env =
     \<lparr>MAX_JOBS = 64, MAX_PRINTERS = 32,
      printer_status_names =
        (\<lambda>st. case st of PRINTER_DISABLED \<Rightarrow> ''disabled'' | PRINTER_IDLE \<Rightarrow> ''idle''
               | PRINTER_BUSY \<Rightarrow> ''busy''),
      infer_file_type = (\<lambda>r. demo_infer_file_type),
      find_type = (\<lambda>r. demo_find_type),
      define_type = (\<lambda>n r. (demo_find_type n, r)),
      define_conversion = (\<lambda>a b c r. (a = ''ps'' \<and> b = ''pdf'', r)),
      find_conversion_path =
        (\<lambda>r a b. if a = ''ps'' \<and> b = ''pdf'' then Some [[''ps2pdf'']] else None),
      killpg_result = (\<lambda>pg sg. 0)\<rparr>"

definition zero_job :: JOB where
  "zero_job = \<lparr>j_id = 0, input_file_path = None, target_printer = None, j_status = JOB_CREATED,
                pgid = 0, created_at = 0, status_changed_at = 0\<rparr>"

definition zero_printer :: PRINTER where
  "zero_printer = \<lparr>p_name = [], p_type = \<lparr>ft_addr = 0, ft_name = []\<rparr>,
                    p_status = PRINTER_DISABLED\<rparr>"

definition spooler_init :: "'r \<Rightarrow> int list \<Rightarrow> 'r spooler" where
  "spooler_init r forks =
     \<lparr>registry = r, printer_registry = (\<lambda>i. zero_printer), number_of_registered_printers = 0,
      job_spool = (\<lambda>i. zero_job), job_count = 0, child_signal_received = False, pending = [],
      fork_results = forks, clock = 0, events = [], out = [], signals = []\<rparr>"

text \<open>
  What happens around the spooler between two of its steps: a child changes state (the
  kernel queues the status and the handler of \<^verbatim>\<open>SIGCHLD\<close> runs), and time passes.
\<close>

definition child_changes :: "int \<Rightarrow> wstatus \<Rightarrow> 'r spooler \<Rightarrow> 'r spooler" where
  "child_changes pid status s = sigchld_handler (s\<lparr>pending := pending s @ [(pid, status)]\<rparr>)"

definition time_passes :: "int \<Rightarrow> 'r spooler \<Rightarrow> 'r spooler" where
  "time_passes d s = s\<lparr>clock := clock s + d\<rparr>"

text \<open>The notifications \<^verbatim>\<open>sf_cmd_ok\<close> and \<^verbatim>\<open>sf_cmd_error\<close>, and how many of them were sent.\<close>

fun is_cmd_event :: "event \<Rightarrow> bool" where
  "is_cmd_event SF_cmd_ok = True"
| "is_cmd_event (SF_cmd_error _) = True"
| "is_cmd_event _ = False"

definition cmd_events :: "'r spooler \<Rightarrow> nat" where
  "cmd_events s = length (filter is_cmd_event (events s))"

section \<open>A session\<close>

text \<open>
  A session at the concrete installation, step by step from the initial state: two
  printers are declared and enabled, two jobs are printed, the first job's pipeline exits
  after five seconds, ten seconds later the command \<^verbatim>\<open>jobs\<close> is followed by the sweep
  that removes the finished job, and a third job is printed.
\<close>

definition s_init :: "unit spooler" where
  "s_init = spooler_init () [100, 101, 102]"

definition s_alice :: "unit spooler" where
  "s_alice = snd (run_cli_line demo_env ''printer alice pdf'' s_init)"

definition s_bob :: "unit spooler" where
  "s_bob = snd (run_cli_line demo_env ''printer bob ps'' s_alice)"

definition s_alice_on :: "unit spooler" where
  "s_alice_on = snd (run_cli_line demo_env ''enable alice'' s_bob)"

definition s_both_on :: "unit spooler" where
  "s_both_on = snd (run_cli_line demo_env ''enable bob'' s_alice_on)"

definition s_job0 :: "unit spooler" where
  "s_job0 = snd (run_cli_line demo_env ''print a.pdf'' s_both_on)"

definition s_job1 :: "unit spooler" where
  "s_job1 = snd (run_cli_line demo_env ''print b.ps'' s_job0)"

definition s_job0_done :: "unit spooler" where
  "s_job0_done =
     handle_child_status_updates demo_env (child_changes 100 (Exited 0) (time_passes 5 s_job1))"

definition s_swept :: "unit spooler" where
  "s_swept = snd (run_cli_line demo_env ''jobs'' (time_passes 10 s_job0_done))"

definition s_job_again :: "unit spooler" where
  "s_job_again = snd (run_cli_line demo_env ''print a.pdf'' s_swept)"

text \<open>The state after the sweep, when the next \<^verbatim>\<open>fork\<close> is going to fail.\<close>

definition s_fork_fails :: "unit spooler" where
  "s_fork_fails = s_swept\<lparr>fork_results := [- 1]\<rparr>"

text \<open>
  A second continuation after the two jobs were printed: the second job is paused, and its
  pipeline reports that it has stopped.
\<close>

definition s_pause_sent :: "unit spooler" where
  "s_pause_sent = snd (run_cli_line demo_env ''pause 1'' s_job1)"

definition s_paused :: "unit spooler" where
  "s_paused = handle_child_status_updates demo_env (child_changes 101 (Stopped 19) s_pause_sent)"

text \<open>A third continuation: a job is printed while no printer is enabled, and waits.\<close>

definition s_waiting :: "unit spooler" where
  "s_waiting = snd (run_cli_line demo_env ''print a.pdf'' s_bob)"

section \<open>The states the spooler can be in\<close>

text \<open>
  What holds of a live job at every point between two operations: a running or paused job
  has the pid of its pipeline, a created job has the sentinel, a job with a pid has a
  printer, and no live job is in the state deleted.
\<close>

definition job_ok :: "JOB \<Rightarrow> bool" where
  "job_ok j =
     ((j_status j = JOB_RUNNING \<or> j_status j = JOB_PAUSED \<longrightarrow> 0 \<le> pgid j)
      \<and> (j_status j = JOB_CREATED \<longrightarrow> pgid j = - 1)
      \<and> (0 \<le> pgid j \<longrightarrow> target_printer j \<noteq> None)
      \<and> j_status j \<noteq> JOB_DELETED)"

definition jobs_wf :: "'r spooler \<Rightarrow> bool" where
  "jobs_wf s = (\<forall>i < job_count s. job_ok (job_spool s i))"

text \<open>
  The states between two operations: the initial one, and those that follow when a line
  is processed, when the reader's hook runs the dispatcher, when a child changes state, when
  time passes, and when the future results of \<^verbatim>\<open>fork\<close> change.
\<close>

inductive reachable :: "'r env \<Rightarrow> 'r spooler \<Rightarrow> bool" for env :: "'r env" where
  initial: "reachable env (spooler_init r forks)"
| command: "reachable env s \<Longrightarrow> reachable env (snd (run_cli_line env l s))"
| reaper: "reachable env s \<Longrightarrow> reachable env (handle_child_status_updates env s)"
| child: "reachable env s \<Longrightarrow> reachable env (child_changes pid status s)"
| time: "reachable env s \<Longrightarrow> reachable env (time_passes d s)"
| forks: "reachable env s \<Longrightarrow> reachable env (s\<lparr>fork_results := fr\<rparr>)"



section \<open>Facts about the model\<close>

subsection \<open>The fields after the elementary effects\<close>

lemma sf_sel [simp]:
  "registry (sf e s) = registry s"
  "printer_registry (sf e s) = printer_registry s"
  "number_of_registered_printers (sf e s) = number_of_registered_printers s"
  "job_spool (sf e s) = job_spool s"
  "job_count (sf e s) = job_count s"
  "child_signal_received (sf e s) = child_signal_received s"
  "pending (sf e s) = pending s"
  "fork_results (sf e s) = fork_results s"
  "clock (sf e s) = clock s"
  "events (sf e s) = events s @ [e]"
  "out (sf e s) = out s"
  "signals (sf e s) = signals s"
  by (simp_all add: sf_def)

lemma fprintf_out_sel [simp]:
  "registry (fprintf_out l s) = registry s"
  "printer_registry (fprintf_out l s) = printer_registry s"
  "number_of_registered_printers (fprintf_out l s) = number_of_registered_printers s"
  "job_spool (fprintf_out l s) = job_spool s"
  "job_count (fprintf_out l s) = job_count s"
  "child_signal_received (fprintf_out l s) = child_signal_received s"
  "pending (fprintf_out l s) = pending s"
  "fork_results (fprintf_out l s) = fork_results s"
  "clock (fprintf_out l s) = clock s"
  "events (fprintf_out l s) = events s"
  "out (fprintf_out l s) = out s @ [l]"
  "signals (fprintf_out l s) = signals s"
  by (simp_all add: fprintf_out_def)

lemma killpg_sel [simp]:
  "registry (killpg pg sg s) = registry s"
  "printer_registry (killpg pg sg s) = printer_registry s"
  "number_of_registered_printers (killpg pg sg s) = number_of_registered_printers s"
  "job_spool (killpg pg sg s) = job_spool s"
  "job_count (killpg pg sg s) = job_count s"
  "child_signal_received (killpg pg sg s) = child_signal_received s"
  "pending (killpg pg sg s) = pending s"
  "fork_results (killpg pg sg s) = fork_results s"
  "clock (killpg pg sg s) = clock s"
  "events (killpg pg sg s) = events s"
  "out (killpg pg sg s) = out s"
  "signals (killpg pg sg s) = signals s @ [(pg, sg)]"
  by (simp_all add: killpg_def)

lemma upd_job_sel [simp]:
  "registry (upd_job i f s) = registry s"
  "printer_registry (upd_job i f s) = printer_registry s"
  "number_of_registered_printers (upd_job i f s) = number_of_registered_printers s"
  "job_spool (upd_job i f s) = (job_spool s)(i := f (job_spool s i))"
  "job_count (upd_job i f s) = job_count s"
  "child_signal_received (upd_job i f s) = child_signal_received s"
  "pending (upd_job i f s) = pending s"
  "fork_results (upd_job i f s) = fork_results s"
  "clock (upd_job i f s) = clock s"
  "events (upd_job i f s) = events s"
  "out (upd_job i f s) = out s"
  "signals (upd_job i f s) = signals s"
  by (simp_all add: upd_job_def)

lemma upd_printer_sel [simp]:
  "registry (upd_printer i f s) = registry s"
  "printer_registry (upd_printer i f s) = (printer_registry s)(i := f (printer_registry s i))"
  "number_of_registered_printers (upd_printer i f s) = number_of_registered_printers s"
  "job_spool (upd_printer i f s) = job_spool s"
  "job_count (upd_printer i f s) = job_count s"
  "child_signal_received (upd_printer i f s) = child_signal_received s"
  "pending (upd_printer i f s) = pending s"
  "fork_results (upd_printer i f s) = fork_results s"
  "clock (upd_printer i f s) = clock s"
  "events (upd_printer i f s) = events s"
  "out (upd_printer i f s) = out s"
  "signals (upd_printer i f s) = signals s"
  by (simp_all add: upd_printer_def)

lemma job_launched_sel [simp]:
  "registry (job_launched i p pid cmds s) = registry s"
  "printer_registry (job_launched i p pid cmds s) =
     (printer_registry s)(p := (printer_registry s p)\<lparr>p_status := PRINTER_BUSY\<rparr>)"
  "number_of_registered_printers (job_launched i p pid cmds s) = number_of_registered_printers s"
  "job_spool (job_launched i p pid cmds s) =
     (job_spool s)(i := (job_spool s i)\<lparr>pgid := pid, j_status := JOB_RUNNING,
                                          status_changed_at := clock s\<rparr>)"
  "job_count (job_launched i p pid cmds s) = job_count s"
  "child_signal_received (job_launched i p pid cmds s) = child_signal_received s"
  "pending (job_launched i p pid cmds s) = pending s"
  "fork_results (job_launched i p pid cmds s) = fork_results s"
  "clock (job_launched i p pid cmds s) = clock s"
  "events (job_launched i p pid cmds s) =
     events s @ [SF_job_status (j_id (job_spool s i)) JOB_RUNNING,
                 SF_printer_status (p_name (printer_registry s p)) PRINTER_BUSY,
                 SF_job_started (j_id (job_spool s i)) (p_name (printer_registry s p)) pid cmds]"
  "out (job_launched i p pid cmds s) = out s"
  "signals (job_launched i p pid cmds s) = signals s"
  by (simp_all add: job_launched_def Let_def)

subsection \<open>Loops preserve what their bodies preserve\<close>

lemma try_scheduling_jobs_from_preserves:
  "(\<And>i s. P s \<Longrightarrow> P (try_scheduling_job env i s)) \<Longrightarrow> P s \<Longrightarrow> P (try_scheduling_jobs_from env i s)"
proof (induction env i s rule: try_scheduling_jobs_from.induct)
  case (1 env i s)
  note step = "1.prems"(1) and Ps = "1.prems"(2)
  show ?case
  proof (cases "i < get_job_count s")
    case True
    have "P (try_scheduling_job env i s)"
      using Ps by (rule step)
    then have "P (try_scheduling_jobs_from env (i + 1) (try_scheduling_job env i s))"
      using "1.IH" True step by simp
    then show ?thesis
      using True by (subst try_scheduling_jobs_from.simps) simp
  next
    case False
    then show ?thesis
      using Ps by (subst try_scheduling_jobs_from.simps) simp
  qed
qed

lemma child_status_jobs_from_preserves:
  "(\<And>i s. P s \<Longrightarrow> P (child_status_job pid status i s)) \<Longrightarrow> P s \<Longrightarrow> P (child_status_jobs_from pid status i s)"
proof (induction pid status i s rule: child_status_jobs_from.induct)
  case (1 pid status i s)
  note step = "1.prems"(1) and Ps = "1.prems"(2)
  show ?case
  proof (cases "i < get_job_count s")
    case True
    have "P (child_status_job pid status i s)"
      using Ps by (rule step)
    then have "P (child_status_jobs_from pid status (i + 1) (child_status_job pid status i s))"
      using "1.IH" True step by simp
    then show ?thesis
      using True by (subst child_status_jobs_from.simps) simp
  next
    case False
    then show ?thesis
      using Ps by (subst child_status_jobs_from.simps) simp
  qed
qed

text \<open>
  One round of the scheduler's loop is a composition of three elementary steps: a call
  of \<^verbatim>\<open>fork\<close> is consumed, the printer pointer of a created job is written, and a created
  job is launched on the printer it points to.
\<close>

lemma try_scheduling_job_preserves:
  assumes "P s"
    and "\<And>s fr. P s \<Longrightarrow> P (s\<lparr>fork_results := fr\<rparr>)"
    and "\<And>s t. P s \<Longrightarrow> i < job_count s \<Longrightarrow> j_status (job_spool s i) = JOB_CREATED
            \<Longrightarrow> P (upd_job i (\<lambda>j. j\<lparr>target_printer := t\<rparr>) s)"
    and "\<And>s p pid cmds. P s \<Longrightarrow> i < job_count s \<Longrightarrow> j_status (job_spool s i) = JOB_CREATED
            \<Longrightarrow> target_printer (job_spool s i) = Some p \<Longrightarrow> 0 \<le> pid
            \<Longrightarrow> P (job_launched i p pid cmds s)"
  shows "P (try_scheduling_job env i s)"
  using assms(1)
  by (auto simp: try_scheduling_job_def get_job_by_index_def start_conversion_pipeline_def Let_def
      split: option.split list.split intro!: assms(2-4))


subsection \<open>What the scheduler leaves alone\<close>

lemma try_scheduling_job_frame_all:
  "registry (try_scheduling_job env i s) = registry s
   \<and> number_of_registered_printers (try_scheduling_job env i s) = number_of_registered_printers s
   \<and> job_count (try_scheduling_job env i s) = job_count s
   \<and> child_signal_received (try_scheduling_job env i s) = child_signal_received s
   \<and> pending (try_scheduling_job env i s) = pending s
   \<and> clock (try_scheduling_job env i s) = clock s
   \<and> out (try_scheduling_job env i s) = out s
   \<and> signals (try_scheduling_job env i s) = signals s
   \<and> cmd_events (try_scheduling_job env i s) = cmd_events s
   \<and> (\<forall>k. j_id (job_spool (try_scheduling_job env i s) k) = j_id (job_spool s k))
   \<and> (\<forall>p. p_name (printer_registry (try_scheduling_job env i s) p) = p_name (printer_registry s p))
   \<and> (\<forall>p. p_type (printer_registry (try_scheduling_job env i s) p) = p_type (printer_registry s p))"
  by (rule try_scheduling_job_preserves) (auto simp: cmd_events_def)

lemma try_scheduling_jobs_frame_all:
  "registry (try_scheduling_jobs env s) = registry s
   \<and> number_of_registered_printers (try_scheduling_jobs env s) = number_of_registered_printers s
   \<and> job_count (try_scheduling_jobs env s) = job_count s
   \<and> child_signal_received (try_scheduling_jobs env s) = child_signal_received s
   \<and> pending (try_scheduling_jobs env s) = pending s
   \<and> clock (try_scheduling_jobs env s) = clock s
   \<and> out (try_scheduling_jobs env s) = out s
   \<and> signals (try_scheduling_jobs env s) = signals s
   \<and> cmd_events (try_scheduling_jobs env s) = cmd_events s
   \<and> (\<forall>k. j_id (job_spool (try_scheduling_jobs env s) k) = j_id (job_spool s k))
   \<and> (\<forall>p. p_name (printer_registry (try_scheduling_jobs env s) p) = p_name (printer_registry s p))
   \<and> (\<forall>p. p_type (printer_registry (try_scheduling_jobs env s) p) = p_type (printer_registry s p))"
  unfolding try_scheduling_jobs_def
  by (rule try_scheduling_jobs_from_preserves) (auto simp: try_scheduling_job_frame_all)

lemma try_scheduling_jobs_frame [simp]:
  "registry (try_scheduling_jobs env s) = registry s"
  "number_of_registered_printers (try_scheduling_jobs env s) = number_of_registered_printers s"
  "job_count (try_scheduling_jobs env s) = job_count s"
  "child_signal_received (try_scheduling_jobs env s) = child_signal_received s"
  "pending (try_scheduling_jobs env s) = pending s"
  "clock (try_scheduling_jobs env s) = clock s"
  "out (try_scheduling_jobs env s) = out s"
  "signals (try_scheduling_jobs env s) = signals s"
  "cmd_events (try_scheduling_jobs env s) = cmd_events s"
  "j_id (job_spool (try_scheduling_jobs env s) k) = j_id (job_spool s k)"
  "p_name (printer_registry (try_scheduling_jobs env s) p) = p_name (printer_registry s p)"
  "p_type (printer_registry (try_scheduling_jobs env s) p) = p_type (printer_registry s p)"
  using try_scheduling_jobs_frame_all [of env s] by simp_all


lemma submit_print_job_success:
  assumes "submit_print_job env file_path printer s = (0, s')"
  shows "j_id (job_spool s' (job_count s)) = int (job_count s) \<and> job_count s' = job_count s + 1"
  using assms
  by (auto simp: submit_print_job_def Let_def start_conversion_pipeline_def
      split: option.splits list.splits if_splits)

lemma pause_job_only_signals:
  assumes "0 \<le> job_id" and "job_id < int (job_count s)"
    and "j_status (job_spool s (nat job_id)) = JOB_RUNNING"
  shows "pause_job env job_id s =
           (killpg_result env (pgid (job_spool s (nat job_id))) SIGSTOP,
            s\<lparr>signals := signals s @ [(pgid (job_spool s (nat job_id)), SIGSTOP)]\<rparr>)"
  using assms by (simp add: pause_job_def killpg_def Let_def)

lemma resume_job_only_signals:
  assumes "0 \<le> job_id" and "job_id < int (job_count s)"
    and "j_status (job_spool s (nat job_id)) = JOB_PAUSED"
  shows "resume_job env job_id s =
           (killpg_result env (pgid (job_spool s (nat job_id))) SIGCONT,
            s\<lparr>signals := signals s @ [(pgid (job_spool s (nat job_id)), SIGCONT)]\<rparr>)"
  using assms by (simp add: resume_job_def killpg_def Let_def)

lemma cancel_job_launched:
  assumes "0 \<le> job_id" and "job_id < int (job_count s)"
    and "j_status (job_spool s (nat job_id)) = JOB_RUNNING
         \<or> j_status (job_spool s (nat job_id)) = JOB_PAUSED"
  shows "fst (cancel_job job_id s) = 0"
    and "signals (snd (cancel_job job_id s)) =
           signals s @ (if j_status (job_spool s (nat job_id)) = JOB_PAUSED
                        then [(pgid (job_spool s (nat job_id)), SIGCONT)] else [])
                     @ [(pgid (job_spool s (nat job_id)), SIGTERM)]"
    and "job_spool (snd (cancel_job job_id s)) =
           (job_spool s)(nat job_id := (job_spool s (nat job_id))
              \<lparr>j_status := JOB_ABORTED, status_changed_at := clock s\<rparr>)"
    and "target_printer (job_spool s (nat job_id)) = Some p \<Longrightarrow>
           printer_registry (snd (cancel_job job_id s)) =
             (printer_registry s)(p := (printer_registry s p)\<lparr>p_status := PRINTER_IDLE\<rparr>)"
    and "job_count (snd (cancel_job job_id s)) = job_count s"
  using assms by (auto simp: cancel_job_def Let_def split: option.split)


subsection \<open>The dispatcher of child status changes\<close>

lemma child_status_job_other:
  "k \<noteq> i \<Longrightarrow> job_spool (child_status_job pid status i s) k = job_spool s k"
  by (simp add: child_status_job_def get_job_by_index_def Let_def split: option.split)

lemma child_status_job_clock [simp]:
  "clock (child_status_job pid status i s) = clock s"
  by (simp add: child_status_job_def get_job_by_index_def Let_def split: option.split)

text \<open>The status that the dispatcher gives to a job whose pid was reaped.\<close>

lemma child_status_job_status:
  assumes "i < job_count s" and "pgid (job_spool s i) = pid"
  shows "j_status (job_spool (child_status_job pid status i s) i) =
           (case status of Stopped n \<Rightarrow> JOB_PAUSED | Continued \<Rightarrow> JOB_RUNNING
            | Exited c \<Rightarrow> JOB_FINISHED | Signaled n \<Rightarrow> JOB_ABORTED)"
    and "pgid (job_spool (child_status_job pid status i s) i) = pid"
  using assms
  by (cases status; simp add: child_status_job_def get_job_by_index_def Let_def split: option.split)+

lemma child_status_jobs_from_below:
  "k < i \<Longrightarrow> job_spool (child_status_jobs_from pid status i s) k = job_spool s k"
proof (induction pid status i s rule: child_status_jobs_from.induct)
  case (1 pid status i s)
  then show ?case
    by (subst child_status_jobs_from.simps) (simp add: child_status_job_other)
qed

lemma child_status_jobs_from_status:
  assumes "k \<le> i" and "i < job_count s" and "pgid (job_spool s i) = pid"
  shows "j_status (job_spool (child_status_jobs_from pid status k s) i) =
           (case status of Stopped n \<Rightarrow> JOB_PAUSED | Continued \<Rightarrow> JOB_RUNNING
            | Exited c \<Rightarrow> JOB_FINISHED | Signaled n \<Rightarrow> JOB_ABORTED)"
  using assms
proof (induction pid status k s rule: child_status_jobs_from.induct)
  case (1 pid status k s)
  have lt: "k < get_job_count s"
    using "1.prems" by (simp add: get_job_count_def)
  show ?case
  proof (cases "k = i")
    case True
    then show ?thesis
      using "1.prems" lt
      by (subst child_status_jobs_from.simps)
        (simp add: child_status_jobs_from_below child_status_job_status)
  next
    case False
    then have "k + 1 \<le> i" and "job_spool (child_status_job pid status k s) i = job_spool s i"
      using "1.prems" by (simp_all add: child_status_job_other)
    then show ?thesis
      using "1.IH" [OF lt] "1.prems" lt
      by (subst child_status_jobs_from.simps) simp
  qed
qed

lemma child_status_job_printers_unchanged:
  "WIFSTOPPED status \<or> WIFCONTINUED status \<Longrightarrow>
     printer_registry (child_status_job pid status i s) = printer_registry s"
  by (auto simp: child_status_job_def get_job_by_index_def Let_def split: option.split)

lemma child_status_jobs_from_printers_unchanged:
  assumes "WIFSTOPPED status \<or> WIFCONTINUED status"
  shows "printer_registry (child_status_jobs_from pid status i s) = printer_registry s"
  by (rule child_status_jobs_from_preserves)
    (simp_all add: child_status_job_printers_unchanged [OF assms])

lemma child_status_job_keeps_idle:
  "p_status (printer_registry s p) = PRINTER_IDLE \<Longrightarrow>
     p_status (printer_registry (child_status_job pid status i s) p) = PRINTER_IDLE"
  by (simp add: child_status_job_def get_job_by_index_def Let_def split: option.split)

lemma child_status_job_idles:
  assumes "i < job_count s" and "pgid (job_spool s i) = pid"
    and "target_printer (job_spool s i) = Some p"
    and "WIFEXITED status \<or> WIFSIGNALED status"
  shows "p_status (printer_registry (child_status_job pid status i s) p) = PRINTER_IDLE"
  using assms
  by (cases status; simp add: child_status_job_def get_job_by_index_def Let_def split: option.split)

lemma child_status_jobs_from_idles:
  assumes "k \<le> i" and "i < job_count s" and "pgid (job_spool s i) = pid"
    and "target_printer (job_spool s i) = Some p"
    and "WIFEXITED status \<or> WIFSIGNALED status"
  shows "p_status (printer_registry (child_status_jobs_from pid status k s) p) = PRINTER_IDLE"
  using assms
proof (induction pid status k s rule: child_status_jobs_from.induct)
  case (1 pid status k s)
  have lt: "k < get_job_count s"
    using "1.prems" by (simp add: get_job_count_def)
  show ?case
  proof (cases "k = i")
    case True
    have "p_status (printer_registry (child_status_job pid status i s) p) = PRINTER_IDLE"
      using "1.prems" by (intro child_status_job_idles)
    then have "p_status (printer_registry
        (child_status_jobs_from pid status (i + 1) (child_status_job pid status i s)) p) = PRINTER_IDLE"
      by (rule child_status_jobs_from_preserves [rotated]) (rule child_status_job_keeps_idle)
    then show ?thesis
      using True lt by (subst child_status_jobs_from.simps) simp
  next
    case False
    then have "k + 1 \<le> i" and "job_spool (child_status_job pid status k s) i = job_spool s i"
      using "1.prems" by (simp_all add: child_status_job_other)
    then show ?thesis
      using "1.IH" [OF lt] "1.prems" lt
      by (subst child_status_jobs_from.simps) simp
  qed
qed


subsection \<open>The states of the session\<close>

lemmas model_defs =
  sf_def fprintf_out_def killpg_def upd_job_def upd_printer_def string_of_int_def isspace_def
  digit_value_def LONG_MAX_def LONG_MIN_def strtol_def int_of_long_def atoi_def
  get_printer_count_def get_printer_by_name_def get_printer_by_index_def
  add_printer_to_system_def select_compatible_printer_def start_conversion_pipeline_def
  cleanup_job_def get_job_count_def get_job_by_index_def job_launched_def cmd_names_def
  try_scheduling_job_def try_scheduling_jobs_def submit_print_job_def delete_job_at_def
  delete_expired_jobs_if_needed_def cancel_job_def pause_job_def resume_job_def squote_def
  printer_line_def handle_type_command_def handle_conversion_command_def handle_printer_command_def
  handle_enable_command_def handle_printers_command_def handle_print_command_def
  handle_jobs_command_def handle_cancel_command_def handle_pause_command_def handle_resume_command_def
  command_list_summary_def handle_user_command_def MAX_COMMAND_TOKENS_def sigchld_handler_def
  child_status_job_def handle_child_status_updates_def split_input_line_into_tokens_def
  run_cli_line_def type_pdf_def type_ps_def demo_find_type_def demo_infer_file_type_def demo_env_def
  zero_job_def zero_printer_def spooler_init_def child_changes_def time_passes_def Let_def

lemmas model_simps =
  string_of_nat.simps get_printer_by_name_from.simps select_compatible_printer_from.simps
  try_scheduling_jobs_from.simps compact_from.simps delete_expired_from.simps printers_from.simps
  jobs_from.simps child_status_jobs_from.simps waitpid_loop.simps split_input_line_into_tokens_from.simps

lemma s_init_fields:
  "number_of_registered_printers s_init = 0"
  "printer_registry s_init 0 = zero_printer"
  "printer_registry s_init (Suc 0) = zero_printer"
  "job_count s_init = 0"
  "job_spool s_init 0 = zero_job"
  "job_spool s_init (Suc 0) = zero_job"
  "child_signal_received s_init = False"
  "pending s_init = []"
  "fork_results s_init = [100, 101, 102]"
  "clock s_init = 0"
  by (simp_all add: s_init_def spooler_init_def)

lemma s_alice_eq:
  "s_alice = s_init
     \<lparr>printer_registry := (printer_registry s_init)(0 := \<lparr>p_name = ''alice'', p_type = type_pdf, p_status = PRINTER_DISABLED\<rparr>),
      number_of_registered_printers := Suc 0,
      events := events s_init @ [SF_printer_defined ''alice'' ''pdf'', SF_cmd_ok],
      out := out s_init @ [''PRINTER: id=0, name=alice, type=pdf, status=disabled'']\<rparr>"
  unfolding s_alice_def
  by (simp add: s_init_fields model_defs model_simps cong: let_weak_cong)

lemma s_alice_fields:
  "number_of_registered_printers s_alice = Suc 0"
  "printer_registry s_alice 0 = \<lparr>p_name = ''alice'', p_type = type_pdf, p_status = PRINTER_DISABLED\<rparr>"
  "printer_registry s_alice (Suc 0) = zero_printer"
  "job_count s_alice = 0"
  "job_spool s_alice 0 =
     zero_job"
  "job_spool s_alice (Suc 0) =
     zero_job"
  "child_signal_received s_alice = False"
  "pending s_alice = []"
  "fork_results s_alice = [100, 101, 102]"
  "clock s_alice = 0"
  by (simp_all add: s_alice_eq s_init_fields)

lemma s_bob_eq:
  "s_bob = s_alice
     \<lparr>printer_registry := (printer_registry s_alice)(Suc 0 := \<lparr>p_name = ''bob'', p_type = type_ps, p_status = PRINTER_DISABLED\<rparr>),
      number_of_registered_printers := Suc (Suc 0),
      events := events s_alice @ [SF_printer_defined ''bob'' ''ps'', SF_cmd_ok],
      out := out s_alice @ [''PRINTER: id=1, name=bob, type=ps, status=disabled'']\<rparr>"
  unfolding s_bob_def
  by (simp add: s_alice_fields model_defs model_simps cong: let_weak_cong)

lemma s_bob_fields:
  "number_of_registered_printers s_bob = Suc (Suc 0)"
  "printer_registry s_bob 0 = \<lparr>p_name = ''alice'', p_type = type_pdf, p_status = PRINTER_DISABLED\<rparr>"
  "printer_registry s_bob (Suc 0) = \<lparr>p_name = ''bob'', p_type = type_ps, p_status = PRINTER_DISABLED\<rparr>"
  "job_count s_bob = 0"
  "job_spool s_bob 0 =
     zero_job"
  "job_spool s_bob (Suc 0) =
     zero_job"
  "child_signal_received s_bob = False"
  "pending s_bob = []"
  "fork_results s_bob = [100, 101, 102]"
  "clock s_bob = 0"
  by (simp_all add: s_bob_eq s_alice_fields)

lemma s_alice_on_eq:
  "s_alice_on = s_bob
     \<lparr>printer_registry := (printer_registry s_bob)(0 := \<lparr>p_name = ''alice'', p_type = type_pdf, p_status = PRINTER_IDLE\<rparr>),
      events := events s_bob @ [SF_printer_status ''alice'' PRINTER_IDLE, SF_cmd_ok],
      out := out s_bob @ [''PRINTER: id=1, name=alice, type=pdf, status=idle'']\<rparr>"
  unfolding s_alice_on_def
  by (simp add: s_bob_fields model_defs model_simps cong: let_weak_cong)

lemma s_alice_on_fields:
  "number_of_registered_printers s_alice_on = Suc (Suc 0)"
  "printer_registry s_alice_on 0 = \<lparr>p_name = ''alice'', p_type = type_pdf, p_status = PRINTER_IDLE\<rparr>"
  "printer_registry s_alice_on (Suc 0) = \<lparr>p_name = ''bob'', p_type = type_ps, p_status = PRINTER_DISABLED\<rparr>"
  "job_count s_alice_on = 0"
  "job_spool s_alice_on 0 =
     zero_job"
  "job_spool s_alice_on (Suc 0) =
     zero_job"
  "child_signal_received s_alice_on = False"
  "pending s_alice_on = []"
  "fork_results s_alice_on = [100, 101, 102]"
  "clock s_alice_on = 0"
  by (simp_all add: s_alice_on_eq s_bob_fields)

lemma s_both_on_eq:
  "s_both_on = s_alice_on
     \<lparr>printer_registry := (printer_registry s_alice_on)(Suc 0 := \<lparr>p_name = ''bob'', p_type = type_ps, p_status = PRINTER_IDLE\<rparr>),
      events := events s_alice_on @ [SF_printer_status ''bob'' PRINTER_IDLE, SF_cmd_ok],
      out := out s_alice_on @ [''PRINTER: id=1, name=bob, type=ps, status=idle'']\<rparr>"
  unfolding s_both_on_def
  by (simp add: s_alice_on_fields model_defs model_simps cong: let_weak_cong)

lemma s_both_on_fields:
  "number_of_registered_printers s_both_on = Suc (Suc 0)"
  "printer_registry s_both_on 0 = \<lparr>p_name = ''alice'', p_type = type_pdf, p_status = PRINTER_IDLE\<rparr>"
  "printer_registry s_both_on (Suc 0) = \<lparr>p_name = ''bob'', p_type = type_ps, p_status = PRINTER_IDLE\<rparr>"
  "job_count s_both_on = 0"
  "job_spool s_both_on 0 =
     zero_job"
  "job_spool s_both_on (Suc 0) =
     zero_job"
  "child_signal_received s_both_on = False"
  "pending s_both_on = []"
  "fork_results s_both_on = [100, 101, 102]"
  "clock s_both_on = 0"
  by (simp_all add: s_both_on_eq s_alice_on_fields)

lemma s_job0_eq:
  "s_job0 = s_both_on
     \<lparr>job_count := Suc 0,
      fork_results := [101, 102],
      job_spool := (job_spool s_both_on)(0 := \<lparr>j_id = 0, input_file_path = Some ''a.pdf'', target_printer = Some 0,
       j_status = JOB_RUNNING, pgid = 100, created_at = 0, status_changed_at = 0\<rparr>),
      printer_registry := (printer_registry s_both_on)(0 := \<lparr>p_name = ''alice'', p_type = type_pdf, p_status = PRINTER_BUSY\<rparr>),
      events := events s_both_on @
        [SF_job_created 0 (Some ''a.pdf'') ''pdf'', SF_job_status 0 JOB_CREATED,
         SF_job_status 0 JOB_RUNNING, SF_printer_status ''alice'' PRINTER_BUSY,
         SF_job_started 0 ''alice'' 100 [''cat''], SF_cmd_ok]\<rparr>"
  unfolding s_job0_def
  by (simp add: s_both_on_fields model_defs model_simps cong: let_weak_cong)

lemma s_job0_fields:
  "number_of_registered_printers s_job0 = Suc (Suc 0)"
  "printer_registry s_job0 0 = \<lparr>p_name = ''alice'', p_type = type_pdf, p_status = PRINTER_BUSY\<rparr>"
  "printer_registry s_job0 (Suc 0) = \<lparr>p_name = ''bob'', p_type = type_ps, p_status = PRINTER_IDLE\<rparr>"
  "job_count s_job0 = Suc 0"
  "job_spool s_job0 0 =
     \<lparr>j_id = 0, input_file_path = Some ''a.pdf'', target_printer = Some 0,
       j_status = JOB_RUNNING, pgid = 100, created_at = 0, status_changed_at = 0\<rparr>"
  "job_spool s_job0 (Suc 0) =
     zero_job"
  "child_signal_received s_job0 = False"
  "pending s_job0 = []"
  "fork_results s_job0 = [101, 102]"
  "clock s_job0 = 0"
  by (simp_all add: s_job0_eq s_both_on_fields)

lemma s_job1_eq:
  "s_job1 = s_job0
     \<lparr>job_count := Suc (Suc 0),
      fork_results := [102],
      job_spool := (job_spool s_job0)(Suc 0 := \<lparr>j_id = 1, input_file_path = Some ''b.ps'', target_printer = Some (Suc 0),
       j_status = JOB_RUNNING, pgid = 101, created_at = 0, status_changed_at = 0\<rparr>),
      printer_registry := (printer_registry s_job0)(Suc 0 := \<lparr>p_name = ''bob'', p_type = type_ps, p_status = PRINTER_BUSY\<rparr>),
      events := events s_job0 @
        [SF_job_created 1 (Some ''b.ps'') ''ps'', SF_job_status 1 JOB_CREATED,
         SF_job_status 1 JOB_RUNNING, SF_printer_status ''bob'' PRINTER_BUSY,
         SF_job_started 1 ''bob'' 101 [''cat''], SF_cmd_ok]\<rparr>"
  unfolding s_job1_def
  by (simp add: s_job0_fields model_defs model_simps cong: let_weak_cong)

lemma s_job1_fields:
  "number_of_registered_printers s_job1 = Suc (Suc 0)"
  "printer_registry s_job1 0 = \<lparr>p_name = ''alice'', p_type = type_pdf, p_status = PRINTER_BUSY\<rparr>"
  "printer_registry s_job1 (Suc 0) = \<lparr>p_name = ''bob'', p_type = type_ps, p_status = PRINTER_BUSY\<rparr>"
  "job_count s_job1 = Suc (Suc 0)"
  "job_spool s_job1 0 =
     \<lparr>j_id = 0, input_file_path = Some ''a.pdf'', target_printer = Some 0,
       j_status = JOB_RUNNING, pgid = 100, created_at = 0, status_changed_at = 0\<rparr>"
  "job_spool s_job1 (Suc 0) =
     \<lparr>j_id = 1, input_file_path = Some ''b.ps'', target_printer = Some (Suc 0),
       j_status = JOB_RUNNING, pgid = 101, created_at = 0, status_changed_at = 0\<rparr>"
  "child_signal_received s_job1 = False"
  "pending s_job1 = []"
  "fork_results s_job1 = [102]"
  "clock s_job1 = 0"
  by (simp_all add: s_job1_eq s_job0_fields)

lemma s_job0_done_eq:
  "s_job0_done = s_job1
     \<lparr>printer_registry := (printer_registry s_job1)(0 := \<lparr>p_name = ''alice'', p_type = type_pdf, p_status = PRINTER_IDLE\<rparr>),
      job_spool := (job_spool s_job1)(0 := \<lparr>j_id = 0, input_file_path = Some ''a.pdf'', target_printer = Some 0,
       j_status = JOB_FINISHED, pgid = 100, created_at = 0, status_changed_at = 5\<rparr>),
      clock := 5,
      events := events s_job1 @
        [SF_job_status 0 JOB_FINISHED, SF_job_finished 0 0,
         SF_printer_status ''alice'' PRINTER_IDLE]\<rparr>"
  unfolding s_job0_done_def
  by (simp add: s_job1_fields model_defs model_simps cong: let_weak_cong)

lemma s_job0_done_fields:
  "number_of_registered_printers s_job0_done = Suc (Suc 0)"
  "printer_registry s_job0_done 0 = \<lparr>p_name = ''alice'', p_type = type_pdf, p_status = PRINTER_IDLE\<rparr>"
  "printer_registry s_job0_done (Suc 0) = \<lparr>p_name = ''bob'', p_type = type_ps, p_status = PRINTER_BUSY\<rparr>"
  "job_count s_job0_done = Suc (Suc 0)"
  "job_spool s_job0_done 0 =
     \<lparr>j_id = 0, input_file_path = Some ''a.pdf'', target_printer = Some 0,
       j_status = JOB_FINISHED, pgid = 100, created_at = 0, status_changed_at = 5\<rparr>"
  "job_spool s_job0_done (Suc 0) =
     \<lparr>j_id = 1, input_file_path = Some ''b.ps'', target_printer = Some (Suc 0),
       j_status = JOB_RUNNING, pgid = 101, created_at = 0, status_changed_at = 0\<rparr>"
  "child_signal_received s_job0_done = False"
  "pending s_job0_done = []"
  "fork_results s_job0_done = [102]"
  "clock s_job0_done = 5"
  by (simp_all add: s_job0_done_eq s_job1_fields)

lemma s_swept_eq:
  "s_swept = s_job0_done
     \<lparr>job_spool := (job_spool s_job0_done)(0 := \<lparr>j_id = 1, input_file_path = Some ''b.ps'', target_printer = Some (Suc 0),
       j_status = JOB_RUNNING, pgid = 101, created_at = 0, status_changed_at = 0\<rparr>),
      job_count := Suc 0,
      clock := 15,
      events := events s_job0_done @
        [SF_job_status 0 JOB_FINISHED, SF_job_status 1 JOB_RUNNING, SF_cmd_ok,
         SF_job_deleted 0]\<rparr>"
  unfolding s_swept_def
  by (simp add: s_job0_done_fields model_defs model_simps cong: let_weak_cong)

lemma s_swept_fields:
  "number_of_registered_printers s_swept = Suc (Suc 0)"
  "printer_registry s_swept 0 = \<lparr>p_name = ''alice'', p_type = type_pdf, p_status = PRINTER_IDLE\<rparr>"
  "printer_registry s_swept (Suc 0) = \<lparr>p_name = ''bob'', p_type = type_ps, p_status = PRINTER_BUSY\<rparr>"
  "job_count s_swept = Suc 0"
  "job_spool s_swept 0 =
     \<lparr>j_id = 1, input_file_path = Some ''b.ps'', target_printer = Some (Suc 0),
       j_status = JOB_RUNNING, pgid = 101, created_at = 0, status_changed_at = 0\<rparr>"
  "job_spool s_swept (Suc 0) =
     \<lparr>j_id = 1, input_file_path = Some ''b.ps'', target_printer = Some (Suc 0),
       j_status = JOB_RUNNING, pgid = 101, created_at = 0, status_changed_at = 0\<rparr>"
  "child_signal_received s_swept = False"
  "pending s_swept = []"
  "fork_results s_swept = [102]"
  "clock s_swept = 15"
  by (simp_all add: s_swept_eq s_job0_done_fields)

lemma s_fork_fails_fields:
  "number_of_registered_printers s_fork_fails = Suc (Suc 0)"
  "printer_registry s_fork_fails = printer_registry s_swept"
  "job_count s_fork_fails = Suc 0"
  "job_spool s_fork_fails = job_spool s_swept"
  "child_signal_received s_fork_fails = False"
  "pending s_fork_fails = []"
  "fork_results s_fork_fails = [- 1]"
  "clock s_fork_fails = 15"
  "events s_fork_fails = events s_swept"
  "out s_fork_fails = out s_swept"
  "signals s_fork_fails = signals s_swept"
  "registry s_fork_fails = registry s_swept"
  by (simp_all add: s_fork_fails_def s_swept_fields)

lemma s_job_again_eq:
  "s_job_again = s_swept
     \<lparr>job_count := Suc (Suc 0),
      fork_results := [],
      job_spool := (job_spool s_swept)(Suc 0 := \<lparr>j_id = 1, input_file_path = Some ''a.pdf'', target_printer = Some 0,
       j_status = JOB_RUNNING, pgid = 102, created_at = 15, status_changed_at = 15\<rparr>),
      printer_registry := (printer_registry s_swept)(0 := \<lparr>p_name = ''alice'', p_type = type_pdf, p_status = PRINTER_BUSY\<rparr>),
      events := events s_swept @
        [SF_job_created 1 (Some ''a.pdf'') ''pdf'', SF_job_status 1 JOB_CREATED,
         SF_job_status 1 JOB_RUNNING, SF_printer_status ''alice'' PRINTER_BUSY,
         SF_job_started 1 ''alice'' 102 [''cat''], SF_cmd_ok]\<rparr>"
  unfolding s_job_again_def
  by (simp add: s_swept_fields model_defs model_simps cong: let_weak_cong)

lemma s_job_again_fields:
  "number_of_registered_printers s_job_again = Suc (Suc 0)"
  "printer_registry s_job_again 0 = \<lparr>p_name = ''alice'', p_type = type_pdf, p_status = PRINTER_BUSY\<rparr>"
  "printer_registry s_job_again (Suc 0) = \<lparr>p_name = ''bob'', p_type = type_ps, p_status = PRINTER_BUSY\<rparr>"
  "job_count s_job_again = Suc (Suc 0)"
  "job_spool s_job_again 0 =
     \<lparr>j_id = 1, input_file_path = Some ''b.ps'', target_printer = Some (Suc 0),
       j_status = JOB_RUNNING, pgid = 101, created_at = 0, status_changed_at = 0\<rparr>"
  "job_spool s_job_again (Suc 0) =
     \<lparr>j_id = 1, input_file_path = Some ''a.pdf'', target_printer = Some 0,
       j_status = JOB_RUNNING, pgid = 102, created_at = 15, status_changed_at = 15\<rparr>"
  "child_signal_received s_job_again = False"
  "pending s_job_again = []"
  "fork_results s_job_again = []"
  "clock s_job_again = 15"
  by (simp_all add: s_job_again_eq s_swept_fields)


lemma s_pause_sent_eq:
  "s_pause_sent = s_job1
     \<lparr>signals := signals s_job1 @ [(101, SIGSTOP)],
      events := events s_job1 @ [SF_cmd_ok]\<rparr>"
  unfolding s_pause_sent_def
  by (simp add: s_job1_fields model_defs model_simps cong: let_weak_cong)

lemma s_pause_sent_fields:
  "number_of_registered_printers s_pause_sent = Suc (Suc 0)"
  "printer_registry s_pause_sent 0 = \<lparr>p_name = ''alice'', p_type = type_pdf, p_status = PRINTER_BUSY\<rparr>"
  "printer_registry s_pause_sent (Suc 0) = \<lparr>p_name = ''bob'', p_type = type_ps, p_status = PRINTER_BUSY\<rparr>"
  "job_count s_pause_sent = Suc (Suc 0)"
  "job_spool s_pause_sent 0 =
     \<lparr>j_id = 0, input_file_path = Some ''a.pdf'', target_printer = Some 0,
       j_status = JOB_RUNNING, pgid = 100, created_at = 0, status_changed_at = 0\<rparr>"
  "job_spool s_pause_sent (Suc 0) =
     \<lparr>j_id = 1, input_file_path = Some ''b.ps'', target_printer = Some (Suc 0),
       j_status = JOB_RUNNING, pgid = 101, created_at = 0, status_changed_at = 0\<rparr>"
  "child_signal_received s_pause_sent = False"
  "pending s_pause_sent = []"
  "fork_results s_pause_sent = [102]"
  "clock s_pause_sent = 0"
  by (simp_all add: s_pause_sent_eq s_job1_fields)

lemma s_paused_eq:
  "s_paused = s_pause_sent
     \<lparr>job_spool := (job_spool s_pause_sent)(Suc 0 := \<lparr>j_id = 1, input_file_path = Some ''b.ps'', target_printer = Some (Suc 0),
       j_status = JOB_PAUSED, pgid = 101, created_at = 0, status_changed_at = 0\<rparr>),
      events := events s_pause_sent @ [SF_job_status 1 JOB_PAUSED]\<rparr>"
  unfolding s_paused_def
  by (simp add: s_pause_sent_fields model_defs model_simps cong: let_weak_cong)

lemma s_paused_fields:
  "number_of_registered_printers s_paused = Suc (Suc 0)"
  "printer_registry s_paused 0 = \<lparr>p_name = ''alice'', p_type = type_pdf, p_status = PRINTER_BUSY\<rparr>"
  "printer_registry s_paused (Suc 0) = \<lparr>p_name = ''bob'', p_type = type_ps, p_status = PRINTER_BUSY\<rparr>"
  "job_count s_paused = Suc (Suc 0)"
  "job_spool s_paused 0 =
     \<lparr>j_id = 0, input_file_path = Some ''a.pdf'', target_printer = Some 0,
       j_status = JOB_RUNNING, pgid = 100, created_at = 0, status_changed_at = 0\<rparr>"
  "job_spool s_paused (Suc 0) =
     \<lparr>j_id = 1, input_file_path = Some ''b.ps'', target_printer = Some (Suc 0),
       j_status = JOB_PAUSED, pgid = 101, created_at = 0, status_changed_at = 0\<rparr>"
  "child_signal_received s_paused = False"
  "pending s_paused = []"
  "fork_results s_paused = [102]"
  "clock s_paused = 0"
  by (simp_all add: s_paused_eq s_pause_sent_fields)

lemma s_waiting_eq:
  "s_waiting = s_bob
     \<lparr>job_spool := (job_spool s_bob)(0 := \<lparr>j_id = 0, input_file_path = Some ''a.pdf'', target_printer = None,
       j_status = JOB_CREATED, pgid = - 1, created_at = 0, status_changed_at = 0\<rparr>),
      events := events s_bob @
        [SF_job_created 0 (Some ''a.pdf'') ''pdf'', SF_job_status 0 JOB_CREATED, SF_cmd_ok],
      job_count := Suc 0\<rparr>"
  unfolding s_waiting_def
  by (simp add: s_bob_fields model_defs model_simps cong: let_weak_cong)

lemma s_waiting_fields:
  "job_count s_waiting = Suc 0"
  "job_spool s_waiting 0 =
     \<lparr>j_id = 0, input_file_path = Some ''a.pdf'', target_printer = None,
       j_status = JOB_CREATED, pgid = - 1, created_at = 0, status_changed_at = 0\<rparr>"
  by (simp_all add: s_waiting_eq s_bob_fields)

lemma session_reachable:
  "reachable demo_env s_job1"
  "reachable demo_env s_job0_done"
  "reachable demo_env s_swept"
  "reachable demo_env s_job_again"
  "reachable demo_env s_paused"
  "reachable demo_env s_waiting"
  unfolding s_waiting_def s_paused_def s_pause_sent_def s_job_again_def s_swept_def
    s_job0_done_def s_job1_def s_job0_def s_both_on_def s_alice_on_def s_bob_def s_alice_def
    s_init_def
  by (intro reachable.intros)+

subsection \<open>Draining, lookup by name, and the event log\<close>

lemma waitpid_loop_drains:
  "\<forall>(pid, status) \<in> set (pending s). 0 < pid \<Longrightarrow> pending (waitpid_loop s) = []"
proof (induction s rule: waitpid_loop.induct)
  case (1 s)
  show ?case
  proof (cases "pending s")
    case Nil
    then show ?thesis
      by (subst waitpid_loop.simps) simp
  next
    case (Cons a rest)
    obtain pid status where a: "a = (pid, status)"
      by (cases a)
    have pos: "0 < pid"
      using "1.prems" Cons a by simp
    have "pending (waitpid_loop (child_status_jobs_from pid status 0 (s\<lparr>pending := rest\<rparr>))) = []"
      using "1.IH" [OF Cons a [symmetric] pos] "1.prems" Cons by simp
    then show ?thesis
      using Cons a pos by (subst waitpid_loop.simps) simp
  qed
qed

lemma get_printer_by_name_from_Some:
  "get_printer_by_name_from n i s = Some p \<Longrightarrow>
     i \<le> p \<and> p < number_of_registered_printers s \<and> p_name (printer_registry s p) = n"
proof (induction n i s rule: get_printer_by_name_from.induct)
  case (1 printer_name i s)
  then show ?case
    by (subst (asm) (2) get_printer_by_name_from.simps) (auto split: if_splits)
qed

lemma try_scheduling_jobs_events:
  "\<exists>es. events (try_scheduling_jobs env s) = events s @ es"
  unfolding try_scheduling_jobs_def
proof (rule try_scheduling_jobs_from_preserves)
  fix i and s' :: "'a spooler"
  assume "\<exists>es. events s' = events s @ es"
  then show "\<exists>es. events (try_scheduling_job env i s') = events s @ es"
    by (rule try_scheduling_job_preserves) auto
qed simp


subsection \<open>Every command reports once\<close>

lemma cmd_events_sel [simp]:
  "cmd_events (sf e s) = (if is_cmd_event e then Suc (cmd_events s) else cmd_events s)"
  "cmd_events (fprintf_out l s) = cmd_events s"
  "cmd_events (killpg pg sg s) = cmd_events s"
  "cmd_events (upd_job i f s) = cmd_events s"
  "cmd_events (upd_printer p g s) = cmd_events s"
  "cmd_events (s\<lparr>registry := r\<rparr>) = cmd_events s"
  "cmd_events (s\<lparr>number_of_registered_printers := n\<rparr>) = cmd_events s"
  "cmd_events (s\<lparr>job_spool := js\<rparr>) = cmd_events s"
  "cmd_events (s\<lparr>job_count := n\<rparr>) = cmd_events s"
  "cmd_events (s\<lparr>fork_results := fr\<rparr>) = cmd_events s"
  "cmd_events (job_launched i p pid cmds s) = cmd_events s"
  by (simp_all add: cmd_events_def)

lemma printers_from_preserves:
  "(\<And>l s. P s \<Longrightarrow> P (fprintf_out l s)) \<Longrightarrow> P s \<Longrightarrow> P (printers_from env i s)"
proof (induction env i s rule: printers_from.induct)
  case (1 env i s)
  note step = "1.prems"(1) and Ps = "1.prems"(2)
  show ?case
  proof (cases "i < get_printer_count s")
    case True
    let ?s1 = "case get_printer_by_index (int i) s of None \<Rightarrow> s
      | Some p \<Rightarrow> fprintf_out (printer_line env (int i) (printer_registry s p)) s"
    have "P ?s1"
      using Ps step by (simp split: option.split)
    then have "P (printers_from env (i + 1) ?s1)"
      using "1.IH" True step by simp
    then show ?thesis
      using True by (subst printers_from.simps) simp
  next
    case False
    then show ?thesis
      using Ps by (subst printers_from.simps) simp
  qed
qed

lemma jobs_from_preserves:
  "(\<And>e s. \<not> is_cmd_event e \<Longrightarrow> P s \<Longrightarrow> P (sf e s)) \<Longrightarrow> P s \<Longrightarrow> P (jobs_from i s)"
proof (induction i s rule: jobs_from.induct)
  case (1 i s)
  note step = "1.prems"(1) and Ps = "1.prems"(2)
  show ?case
  proof (cases "i < get_job_count s")
    case True
    let ?s1 = "case get_job_by_index (int i) s of None \<Rightarrow> s
      | Some j \<Rightarrow> sf (SF_job_status (j_id (job_spool s j)) (j_status (job_spool s j))) s"
    have "P ?s1"
      using Ps step by (simp split: option.split)
    then have "P (jobs_from (i + 1) ?s1)"
      using "1.IH" True step by simp
    then show ?thesis
      using True by (subst jobs_from.simps) simp
  next
    case False
    then show ?thesis
      using Ps by (subst jobs_from.simps) simp
  qed
qed

lemma compact_from_preserves:
  "(\<And>js s. P s \<Longrightarrow> P (s\<lparr>job_spool := js\<rparr>)) \<Longrightarrow> P s \<Longrightarrow> P (compact_from j s)"
proof (induction j s rule: compact_from.induct)
  case (1 j s)
  then show ?case
    by (subst compact_from.simps) simp
qed

lemma delete_expired_from_preserves:
  "(\<And>i s. i < job_count s \<Longrightarrow>
      j_status (job_spool s i) = JOB_FINISHED \<or> j_status (job_spool s i) = JOB_ABORTED \<Longrightarrow>
      P s \<Longrightarrow> P (delete_job_at i s))
   \<Longrightarrow> P s \<Longrightarrow> P (delete_expired_from now i s)"
proof (induction now i s rule: delete_expired_from.induct)
  case (1 now i s)
  then show ?case
    by (subst delete_expired_from.simps) simp
qed

lemma delete_job_at_cmd_events [simp]: "cmd_events (delete_job_at i s) = cmd_events s"
proof -
  have "cmd_events (compact_from j s') = cmd_events s'" for j and s' :: "'a spooler"
    by (rule compact_from_preserves) simp_all
  then show ?thesis
    by (simp add: delete_job_at_def Let_def cleanup_job_def)
qed

lemma delete_expired_jobs_cmd_events [simp]:
  "cmd_events (delete_expired_jobs_if_needed s) = cmd_events s"
  unfolding delete_expired_jobs_if_needed_def
  by (rule delete_expired_from_preserves) simp_all

lemma submit_print_job_cmd_events:
  "cmd_events (snd (submit_print_job env file_path printer s)) = cmd_events s"
  by (simp add: submit_print_job_def Let_def start_conversion_pipeline_def
      split: option.split list.split)

lemma cancel_job_cmd_events: "cmd_events (snd (cancel_job job_id s)) = cmd_events s"
  by (simp add: cancel_job_def Let_def split: option.split)

lemma pause_job_cmd_events: "cmd_events (snd (pause_job env job_id s)) = cmd_events s"
  by (simp add: pause_job_def Let_def)

lemma resume_job_cmd_events: "cmd_events (snd (resume_job env job_id s)) = cmd_events s"
  by (simp add: resume_job_def Let_def)

lemma add_printer_to_system_cmd_events:
  "cmd_events (snd (add_printer_to_system env n t s)) = cmd_events s"
  by (simp add: add_printer_to_system_def Let_def split: option.split)

lemma printers_from_cmd_events [simp]: "cmd_events (printers_from env i s) = cmd_events s"
  by (rule printers_from_preserves) simp_all

lemma jobs_from_cmd_events [simp]: "cmd_events (jobs_from i s) = cmd_events s"
  by (rule jobs_from_preserves) simp_all

lemma handle_type_command_cmd_events:
  "cmd_events (handle_type_command env argv s) = cmd_events s + 1"
  by (simp add: handle_type_command_def Let_def split: prod.split)

lemma handle_conversion_command_cmd_events:
  "cmd_events (handle_conversion_command env argv s) = cmd_events s + 1"
  by (simp add: handle_conversion_command_def Let_def split: prod.split)

lemma handle_printer_command_cmd_events:
  "cmd_events (handle_printer_command env argv s) = cmd_events s + 1"
proof -
  have "cmd_events s1 = cmd_events s"
    if "add_printer_to_system env (argv ! 1) (argv ! 2) s = (rc, s1)" for rc s1
    using add_printer_to_system_cmd_events [of env "argv ! 1" "argv ! 2" s] that by simp
  then show ?thesis
    by (simp add: handle_printer_command_def Let_def split: prod.split option.split)
qed

lemma handle_enable_command_cmd_events:
  "cmd_events (handle_enable_command env argv s) = cmd_events s + 1"
  by (simp add: handle_enable_command_def Let_def split: option.split)

lemma handle_print_command_cmd_events:
  "cmd_events (handle_print_command env argv s) = cmd_events s + 1"
proof -
  have "cmd_events s1 = cmd_events s"
    if "submit_print_job env (Some (argv ! 1)) None s = (rc, s1)" for rc s1
    using submit_print_job_cmd_events [of env "Some (argv ! 1)" None s] that by simp
  then show ?thesis
    by (simp add: handle_print_command_def Let_def split: prod.split)
qed

lemma handle_cancel_command_cmd_events:
  "cmd_events (handle_cancel_command argv s) = cmd_events s + 1"
proof -
  have "cmd_events s1 = cmd_events s" if "cancel_job (atoi (argv ! 1)) s = (rc, s1)" for rc s1
    using cancel_job_cmd_events [of "atoi (argv ! 1)" s] that by simp
  then show ?thesis
    by (simp add: handle_cancel_command_def Let_def split: prod.split)
qed

lemma handle_pause_command_cmd_events:
  "cmd_events (handle_pause_command env argv s) = cmd_events s + 1"
proof -
  have "cmd_events s1 = cmd_events s" if "pause_job env (atoi (argv ! 1)) s = (rc, s1)" for rc s1
    using pause_job_cmd_events [of env "atoi (argv ! 1)" s] that by simp
  then show ?thesis
    by (simp add: handle_pause_command_def Let_def split: prod.split)
qed

lemma handle_resume_command_cmd_events:
  "cmd_events (handle_resume_command env argv s) = cmd_events s + 1"
proof -
  have "cmd_events s1 = cmd_events s" if "resume_job env (atoi (argv ! 1)) s = (rc, s1)" for rc s1
    using resume_job_cmd_events [of env "atoi (argv ! 1)" s] that by simp
  then show ?thesis
    by (simp add: handle_resume_command_def Let_def split: prod.split)
qed

lemma handle_user_command_cmd_events:
  "argv \<noteq> [] \<Longrightarrow> cmd_events (handle_user_command env argv s) = cmd_events s + 1"
  by (simp add: handle_user_command_def Let_def handle_type_command_cmd_events
      handle_conversion_command_cmd_events handle_printer_command_cmd_events
      handle_enable_command_cmd_events handle_print_command_cmd_events
      handle_cancel_command_cmd_events handle_pause_command_cmd_events
      handle_resume_command_cmd_events handle_printers_command_def handle_jobs_command_def)

lemma split_input_line_into_tokens_from_length:
  "length tokens \<le> length (split_input_line_into_tokens_from line tokens)"
proof (induction line tokens rule: split_input_line_into_tokens_from.induct)
  case (1 line tokens)
  show ?case
  proof (cases "line = [] \<or> dropWhile isspace line = []
      \<or> MAX_COMMAND_TOKENS \<le> length tokens + 1")
    case True
    then show ?thesis
      by (subst split_input_line_into_tokens_from.simps) (auto simp: Let_def)
  next
    case False
    then show ?thesis
      using "1.IH" [OF _ refl _ refl refl refl]
      by (subst split_input_line_into_tokens_from.simps) (auto simp: Let_def)
  qed
qed

lemma split_input_line_into_tokens_nonempty:
  assumes "line \<noteq> []" and "\<not> isspace (hd line)"
  shows "split_input_line_into_tokens line \<noteq> []"
proof -
  have dw: "dropWhile isspace line = line"
    using assms by (cases line) simp_all
  have "1 \<le> length (split_input_line_into_tokens line)"
    unfolding split_input_line_into_tokens_def
    using assms(1) dw
      split_input_line_into_tokens_from_length
        [of "[takeWhile (\<lambda>c. \<not> isspace c) line]"]
    by (subst split_input_line_into_tokens_from.simps)
      (simp add: Let_def MAX_COMMAND_TOKENS_def)
  then show ?thesis
    by auto
qed



text \<open>\<^verbatim>\<open>atoi\<close> on small numbers, on trailing text, and on a number that does not fit an \<^verbatim>\<open>int\<close>.\<close>

lemma atoi_examples:
  "atoi ''1'' = 1"
  "atoi '' -42abc'' = - 42"
  "atoi ''abc'' = 0"
  "atoi ''4294967296'' = 0"
  "atoi ''2147483648'' = - 2147483648"
  "atoi ''99999999999999999999'' = - 1"
  by (simp_all add: atoi_def strtol_def int_of_long_def LONG_MAX_def LONG_MIN_def isspace_def
      digit_value_def)

subsection \<open>The invariant of the live jobs\<close>

lemma jobs_wf_cong:
  "job_spool s' = job_spool s \<Longrightarrow> job_count s' = job_count s \<Longrightarrow> jobs_wf s' = jobs_wf s"
  by (simp add: jobs_wf_def)

lemma jobs_wf_sel [simp]:
  "jobs_wf (sf e s) = jobs_wf s"
  "jobs_wf (fprintf_out l s) = jobs_wf s"
  "jobs_wf (killpg pg sg s) = jobs_wf s"
  "jobs_wf (upd_printer p g s) = jobs_wf s"
  "jobs_wf (s\<lparr>registry := r\<rparr>) = jobs_wf s"
  "jobs_wf (s\<lparr>number_of_registered_printers := n\<rparr>) = jobs_wf s"
  "jobs_wf (s\<lparr>fork_results := fr\<rparr>) = jobs_wf s"
  "jobs_wf (s\<lparr>child_signal_received := b\<rparr>) = jobs_wf s"
  "jobs_wf (s\<lparr>pending := pd\<rparr>) = jobs_wf s"
  "jobs_wf (s\<lparr>clock := t\<rparr>) = jobs_wf s"
  by (simp_all add: jobs_wf_def)

lemma try_scheduling_job_wf: "jobs_wf s \<Longrightarrow> jobs_wf (try_scheduling_job env i s)"
  by (rule try_scheduling_job_preserves) (auto simp: jobs_wf_def job_ok_def)

lemma try_scheduling_jobs_wf: "jobs_wf s \<Longrightarrow> jobs_wf (try_scheduling_jobs env s)"
  unfolding try_scheduling_jobs_def
  by (rule try_scheduling_jobs_from_preserves) (rule try_scheduling_job_wf)

lemma submit_print_job_wf:
  assumes "jobs_wf s"
  shows "jobs_wf (snd (submit_print_job env file_path printer s))"
proof (cases printer)
  case None
  show ?thesis
    using assms None
    apply (simp add: submit_print_job_def Let_def split: option.split)
    apply (intro conjI impI allI try_scheduling_jobs_wf)
    apply (auto simp: jobs_wf_def job_ok_def less_Suc_eq)
    done
next
  case (Some p)
  show ?thesis
    using assms Some
    by (auto simp: submit_print_job_def Let_def start_conversion_pipeline_def jobs_wf_def
        job_ok_def less_Suc_eq split: option.split list.split)
qed

lemma cancel_job_wf: "jobs_wf s \<Longrightarrow> jobs_wf (snd (cancel_job job_id s))"
  by (auto simp: cancel_job_def Let_def jobs_wf_def job_ok_def split: option.split)

lemma pause_job_wf: "jobs_wf s \<Longrightarrow> jobs_wf (snd (pause_job env job_id s))"
  by (simp add: pause_job_def Let_def)

lemma resume_job_wf: "jobs_wf s \<Longrightarrow> jobs_wf (snd (resume_job env job_id s))"
  by (simp add: resume_job_def Let_def)

lemma job_ok_status_changed_at [simp]: "job_ok (j\<lparr>status_changed_at := t\<rparr>) = job_ok j"
  by (simp add: job_ok_def)

lemma job_ok_launched_status:
  "job_ok j \<Longrightarrow> 0 < pgid j \<Longrightarrow> st \<noteq> JOB_CREATED \<Longrightarrow> st \<noteq> JOB_DELETED
     \<Longrightarrow> job_ok (j\<lparr>j_status := st\<rparr>)"
  by (simp add: job_ok_def)

lemma child_status_job_wf:
  "jobs_wf s \<Longrightarrow> 0 < pid \<Longrightarrow> jobs_wf (child_status_job pid status i s)"
  by (auto simp: child_status_job_def get_job_by_index_def Let_def jobs_wf_def
      split: option.split intro!: job_ok_launched_status)

lemma waitpid_loop_wf: "jobs_wf s \<Longrightarrow> jobs_wf (waitpid_loop s)"
proof (induction s rule: waitpid_loop.induct)
  case (1 s)
  show ?case
  proof (cases "pending s")
    case Nil
    then show ?thesis
      using "1.prems" by (subst waitpid_loop.simps) simp
  next
    case (Cons a rest)
    obtain pid status where a: "a = (pid, status)"
      by (cases a)
    show ?thesis
    proof (cases "0 < pid")
      case True
      have "jobs_wf (child_status_jobs_from pid status 0 (s\<lparr>pending := rest\<rparr>))"
        using "1.prems" True
        by (intro child_status_jobs_from_preserves [where P = jobs_wf] child_status_job_wf) simp_all
      then have "jobs_wf (waitpid_loop (child_status_jobs_from pid status 0 (s\<lparr>pending := rest\<rparr>)))"
        by (rule "1.IH" [OF Cons a [symmetric] True])
      then show ?thesis
        using Cons a True by (subst waitpid_loop.simps) simp
    next
      case False
      then show ?thesis
        using "1.prems" Cons a by (subst waitpid_loop.simps) simp
    qed
  qed
qed

lemma handle_child_status_updates_wf:
  "jobs_wf s \<Longrightarrow> jobs_wf (handle_child_status_updates env s)"
  by (simp add: handle_child_status_updates_def try_scheduling_jobs_wf waitpid_loop_wf)

lemma compact_from_spool:
  "0 < k \<Longrightarrow>
     job_spool (compact_from k s) j =
       (if k - 1 \<le> j \<and> j + 1 < job_count s then job_spool s (j + 1) else job_spool s j)"
proof (induction k s arbitrary: j rule: compact_from.induct)
  case (1 k s)
  show ?case
  proof (cases "k < job_count s")
    case True
    then show ?thesis
      using "1.IH" [OF True, of j] "1.prems"
      by (subst compact_from.simps) (auto simp: Suc_le_eq)
  next
    case False
    then show ?thesis
      by (subst compact_from.simps) auto
  qed
qed

lemma delete_job_at_wf:
  assumes "jobs_wf s" and "i < job_count s"
  shows "jobs_wf (delete_job_at i s)"
  using assms
  by (auto simp: jobs_wf_def delete_job_at_def Let_def compact_from_spool cleanup_job_def)

lemma delete_expired_jobs_wf: "jobs_wf s \<Longrightarrow> jobs_wf (delete_expired_jobs_if_needed s)"
  unfolding delete_expired_jobs_if_needed_def
  by (rule delete_expired_from_preserves) (simp_all add: delete_job_at_wf)


lemma add_printer_to_system_wf:
  "jobs_wf s \<Longrightarrow> jobs_wf (snd (add_printer_to_system env n t s))"
  by (simp add: add_printer_to_system_def Let_def split: option.split)

lemma printers_from_wf: "jobs_wf s \<Longrightarrow> jobs_wf (printers_from env i s)"
  by (rule printers_from_preserves) simp_all

lemma jobs_from_wf: "jobs_wf s \<Longrightarrow> jobs_wf (jobs_from i s)"
  by (rule jobs_from_preserves) simp_all

lemma handle_printer_command_wf:
  assumes "jobs_wf s"
  shows "jobs_wf (handle_printer_command env argv s)"
proof -
  have "jobs_wf s1" if "add_printer_to_system env (argv ! 1) (argv ! 2) s = (rc, s1)" for rc s1
    using add_printer_to_system_wf [OF assms, of env "argv ! 1" "argv ! 2"] that by simp
  then show ?thesis
    using assms by (simp add: handle_printer_command_def Let_def split: prod.split option.split)
qed

lemma handle_print_command_wf:
  assumes "jobs_wf s"
  shows "jobs_wf (handle_print_command env argv s)"
proof -
  have "jobs_wf s1" if "submit_print_job env (Some (argv ! 1)) None s = (rc, s1)" for rc s1
    using submit_print_job_wf [OF assms, of env "Some (argv ! 1)" None] that by simp
  then show ?thesis
    using assms by (simp add: handle_print_command_def Let_def split: prod.split)
qed

lemma handle_cancel_command_wf:
  assumes "jobs_wf s"
  shows "jobs_wf (handle_cancel_command argv s)"
proof -
  have "jobs_wf s1" if "cancel_job (atoi (argv ! 1)) s = (rc, s1)" for rc s1
    using cancel_job_wf [OF assms, of "atoi (argv ! 1)"] that by simp
  then show ?thesis
    using assms by (simp add: handle_cancel_command_def Let_def split: prod.split)
qed

lemma handle_pause_command_wf:
  assumes "jobs_wf s"
  shows "jobs_wf (handle_pause_command env argv s)"
proof -
  have "jobs_wf s1" if "pause_job env (atoi (argv ! 1)) s = (rc, s1)" for rc s1
    using pause_job_wf [OF assms, of env "atoi (argv ! 1)"] that by simp
  then show ?thesis
    using assms by (simp add: handle_pause_command_def Let_def split: prod.split)
qed

lemma handle_resume_command_wf:
  assumes "jobs_wf s"
  shows "jobs_wf (handle_resume_command env argv s)"
proof -
  have "jobs_wf s1" if "resume_job env (atoi (argv ! 1)) s = (rc, s1)" for rc s1
    using resume_job_wf [OF assms, of env "atoi (argv ! 1)"] that by simp
  then show ?thesis
    using assms by (simp add: handle_resume_command_def Let_def split: prod.split)
qed

lemma handle_user_command_wf: "jobs_wf s \<Longrightarrow> jobs_wf (handle_user_command env argv s)"
  by (simp add: handle_user_command_def Let_def handle_type_command_def
      handle_conversion_command_def handle_enable_command_def handle_printers_command_def
      handle_jobs_command_def handle_printer_command_wf handle_print_command_wf
      handle_cancel_command_wf handle_pause_command_wf handle_resume_command_wf
      try_scheduling_jobs_wf printers_from_wf jobs_from_wf split: prod.split option.split)

lemma run_cli_line_wf: "jobs_wf s \<Longrightarrow> jobs_wf (snd (run_cli_line env l s))"
  by (simp add: run_cli_line_def Let_def delete_expired_jobs_wf handle_user_command_wf)

lemma reachable_jobs_wf: "reachable env s \<Longrightarrow> jobs_wf s"
proof (induction rule: reachable.induct)
  case (initial r forks)
  show ?case
    by (simp add: jobs_wf_def spooler_init_def)
next
  case (command s l)
  then show ?case
    by (simp add: run_cli_line_wf)
next
  case (reaper s)
  then show ?case
    by (simp add: handle_child_status_updates_wf)
next
  case (child s pid status)
  then show ?case
    by (simp add: child_changes_def sigchld_handler_def)
next
  case (time s d)
  then show ?case
    by (simp add: time_passes_def)
next
  case (forks s fr)
  then show ?case
    by simp
qed

lemma child_status_job_pgid:
  "pgid (job_spool (child_status_job pid status i s) k) = pgid (job_spool s k)"
  by (simp add: child_status_job_def get_job_by_index_def Let_def split: option.split)

lemma child_status_jobs_from_pgid:
  "pgid (job_spool (child_status_jobs_from pid status i s) k) = pgid (job_spool s k)"
  by (rule child_status_jobs_from_preserves) (simp_all add: child_status_job_pgid)

lemma cancel_job_pgid:
  "pgid (job_spool (snd (cancel_job job_id s)) k) = pgid (job_spool s k)"
  by (simp add: cancel_job_def Let_def split: option.split)

text \<open>
  The printer pointer that \<^verbatim>\<open>cancel_job\<close> dereferences is never NULL: a live job that is
  running or paused has a printer.
\<close>

lemma launched_job_has_printer:
  assumes "reachable env s" and "i < job_count s"
    and "j_status (job_spool s i) = JOB_RUNNING \<or> j_status (job_spool s i) = JOB_PAUSED"
  shows "target_printer (job_spool s i) \<noteq> None"
  using reachable_jobs_wf [OF assms(1)] assms(2,3) by (auto simp: jobs_wf_def job_ok_def)


subsection \<open>The printer that the scheduler selects\<close>

text \<open>
  The selected printer is idle and compatible, directly or through a conversion, and no
  printer before it in the registry is both.
\<close>

lemma select_compatible_printer_from_Some:
  "select_compatible_printer_from env t i s = Some p \<Longrightarrow>
     i \<le> p \<and> p < number_of_registered_printers s
     \<and> p_status (printer_registry s p) = PRINTER_IDLE
     \<and> (ft_name (p_type (printer_registry s p)) = ft_name t
          \<or> find_conversion_path env (registry s) (ft_name t)
               (ft_name (p_type (printer_registry s p))) \<noteq> None)
     \<and> (\<forall>q. i \<le> q \<and> q < p \<longrightarrow>
            \<not> (p_status (printer_registry s q) = PRINTER_IDLE
               \<and> (ft_name (p_type (printer_registry s q)) = ft_name t
                    \<or> find_conversion_path env (registry s) (ft_name t)
                         (ft_name (p_type (printer_registry s q))) \<noteq> None)))"
proof (induction env t i s rule: select_compatible_printer_from.induct)
  case (1 env from_type i s)
  have lt: "i < get_printer_count s"
    using "1.prems" by (subst (asm) select_compatible_printer_from.simps) (simp split: if_splits)
  then have idx: "get_printer_by_index (int i) s = Some i"
    by (simp add: get_printer_by_index_def get_printer_count_def)
  let ?compatible = "\<lambda>q. ft_name (p_type (printer_registry s q)) = ft_name from_type
      \<or> find_conversion_path env (registry s) (ft_name from_type)
           (ft_name (p_type (printer_registry s q))) \<noteq> None"
  show ?case
  proof (cases "p_status (printer_registry s i) = PRINTER_IDLE \<and> ?compatible i")
    case True
    then have "p = i"
      using "1.prems" lt idx
      by (subst (asm) select_compatible_printer_from.simps) (auto split: if_splits)
    then show ?thesis
      using True lt by (auto simp: get_printer_count_def)
  next
    case False
    then have rec: "select_compatible_printer_from env from_type (i + 1) s = Some p"
      using "1.prems" lt idx
      by (subst (asm) select_compatible_printer_from.simps) (auto split: if_splits)
    have ih: "i + 1 \<le> p \<and> p < number_of_registered_printers s
      \<and> p_status (printer_registry s p) = PRINTER_IDLE \<and> ?compatible p
      \<and> (\<forall>q. i + 1 \<le> q \<and> q < p \<longrightarrow>
             \<not> (p_status (printer_registry s q) = PRINTER_IDLE \<and> ?compatible q))"
    proof (cases "p_status (printer_registry s i) \<noteq> PRINTER_IDLE")
      case True
      show ?thesis
        using "1.IH"(2) [OF lt idx True rec] .
    next
      case idle: False
      then have "ft_name (p_type (printer_registry s i)) \<noteq> ft_name from_type"
        and "\<not> find_conversion_path env (registry s) (ft_name from_type)
               (ft_name (p_type (printer_registry s i))) \<noteq> None"
        using False by auto
      then show ?thesis
        using "1.IH"(3) [OF lt idx idle _ _ rec] by blast
    qed
    have "q = i \<or> i + 1 \<le> q" if "i \<le> q" for q
      using that by auto
    then show ?thesis
      using ih False by (metis Suc_eq_plus1 Suc_leD)
  qed
qed


section \<open>The claims\<close>

text \<open>
  C1, as amended. For a job in the table slot that the command addresses, in state running
  or paused: \<^verbatim>\<open>pause_job\<close> (running job) and \<^verbatim>\<open>resume_job\<close> (paused job) send \<^verbatim>\<open>SIGSTOP\<close> and
  \<^verbatim>\<open>SIGCONT\<close> to the job's process group and change nothing else in the state.
  \<^verbatim>\<open>cancel_job\<close> sends \<^verbatim>\<open>SIGTERM\<close>, preceded by \<^verbatim>\<open>SIGCONT\<close> for a paused job, and in the same
  call sets the job's status to aborted, its \<^verbatim>\<open>status_changed_at\<close> to the current time and the
  status of the job's printer to idle; the job's other fields and the other jobs stay as
  they are.
\<close>

theorem signal_operations_effect:
  assumes "0 \<le> job_id" and "job_id < int (job_count s)"
  shows "(j_status (job_spool s (nat job_id)) = JOB_RUNNING \<longrightarrow>
            pause_job env job_id s =
              (killpg_result env (pgid (job_spool s (nat job_id))) SIGSTOP,
               s\<lparr>signals := signals s @ [(pgid (job_spool s (nat job_id)), SIGSTOP)]\<rparr>))
       \<and> (j_status (job_spool s (nat job_id)) = JOB_PAUSED \<longrightarrow>
            resume_job env job_id s =
              (killpg_result env (pgid (job_spool s (nat job_id))) SIGCONT,
               s\<lparr>signals := signals s @ [(pgid (job_spool s (nat job_id)), SIGCONT)]\<rparr>))
       \<and> (j_status (job_spool s (nat job_id)) = JOB_RUNNING
            \<or> j_status (job_spool s (nat job_id)) = JOB_PAUSED \<longrightarrow>
            fst (cancel_job job_id s) = 0
            \<and> signals (snd (cancel_job job_id s)) =
                signals s @ (if j_status (job_spool s (nat job_id)) = JOB_PAUSED
                             then [(pgid (job_spool s (nat job_id)), SIGCONT)] else [])
                          @ [(pgid (job_spool s (nat job_id)), SIGTERM)]
            \<and> job_spool (snd (cancel_job job_id s)) =
                (job_spool s)(nat job_id := (job_spool s (nat job_id))
                   \<lparr>j_status := JOB_ABORTED, status_changed_at := clock s\<rparr>)
            \<and> job_count (snd (cancel_job job_id s)) = job_count s
            \<and> (\<forall>p. target_printer (job_spool s (nat job_id)) = Some p \<longrightarrow>
                  printer_registry (snd (cancel_job job_id s)) =
                    (printer_registry s)(p := (printer_registry s p)\<lparr>p_status := PRINTER_IDLE\<rparr>)))"
  using assms pause_job_only_signals [OF assms, of env] resume_job_only_signals [OF assms, of env]
    cancel_job_launched [OF assms]
  by simp

theorem signal_operations_effect_witness:
  "pause_job demo_env 0 s_paused =
     (0, s_paused\<lparr>signals := signals s_paused @ [(100, SIGSTOP)]\<rparr>)
   \<and> resume_job demo_env 1 s_paused =
     (0, s_paused\<lparr>signals := signals s_paused @ [(101, SIGCONT)]\<rparr>)
   \<and> signals (snd (cancel_job 0 s_paused)) = signals s_paused @ [(100, SIGTERM)]
   \<and> signals (snd (cancel_job 1 s_paused)) = signals s_paused @ [(101, SIGCONT), (101, SIGTERM)]
   \<and> j_status (job_spool (snd (cancel_job 1 s_paused)) 1) = JOB_ABORTED
   \<and> pgid (job_spool (snd (cancel_job 1 s_paused)) 1) = 101
   \<and> p_status (printer_registry (snd (cancel_job 1 s_paused)) 1) = PRINTER_IDLE"
  using signal_operations_effect [of 0 s_paused demo_env]
    signal_operations_effect [of 1 s_paused demo_env]
  by (simp add: s_paused_fields demo_env_def)

text \<open>
  C1 as stated fails: cancelling the running first job of the session changes the job's
  status and the printer's status in the call that sends the signal.
\<close>

theorem cancel_changes_state_counterexample:
  "j_status (job_spool s_job1 0) = JOB_RUNNING
   \<and> p_status (printer_registry s_job1 0) = PRINTER_BUSY
   \<and> signals (snd (cancel_job 0 s_job1)) = signals s_job1 @ [(100, SIGTERM)]
   \<and> j_status (job_spool (snd (cancel_job 0 s_job1)) 0) = JOB_ABORTED
   \<and> p_status (printer_registry (snd (cancel_job 0 s_job1)) 0) = PRINTER_IDLE"
  by (simp add: s_job1_fields cancel_job_def Let_def)

text \<open>
  C2. For a reaped pid and every live job whose \<^verbatim>\<open>pgid\<close> equals it, one pass of the
  dispatcher over the table gives the job the status that belongs to the event: stopped
  gives paused and continued gives running, both without a change of the printer registry;
  exited (with any exit code) gives finished and signalled gives aborted, and in both cases
  the job's printer becomes idle. The loop around \<^verbatim>\<open>waitpid\<close> makes one such pass per
  pending event, and when the flag of the signal handler is set the dispatcher is the
  scheduler applied once to the state after that loop, in which no event is pending.
\<close>

theorem child_status_dispatch:
  assumes "i < job_count s" and "pgid (job_spool s i) = pid"
  shows "j_status (job_spool (child_status_jobs_from pid status 0 s) i) =
           (case status of Stopped n \<Rightarrow> JOB_PAUSED | Continued \<Rightarrow> JOB_RUNNING
            | Exited c \<Rightarrow> JOB_FINISHED | Signaled n \<Rightarrow> JOB_ABORTED)
       \<and> (WIFSTOPPED status \<or> WIFCONTINUED status \<longrightarrow>
            printer_registry (child_status_jobs_from pid status 0 s) = printer_registry s)
       \<and> (WIFEXITED status \<or> WIFSIGNALED status \<longrightarrow>
            (\<forall>p. target_printer (job_spool s i) = Some p \<longrightarrow>
               p_status (printer_registry (child_status_jobs_from pid status 0 s) p) = PRINTER_IDLE))
       \<and> (pending s = (pid, status) # rest \<and> 0 < pid \<longrightarrow>
            waitpid_loop s = waitpid_loop (child_status_jobs_from pid status 0 (s\<lparr>pending := rest\<rparr>)))
       \<and> (child_signal_received s \<longrightarrow>
            handle_child_status_updates env s =
              try_scheduling_jobs env (waitpid_loop (s\<lparr>child_signal_received := False\<rparr>)))
       \<and> (child_signal_received s \<and> (\<forall>(q, st) \<in> set (pending s). 0 < q) \<longrightarrow>
            pending (handle_child_status_updates env s) = [])"
proof -
  have "pending (waitpid_loop (s\<lparr>child_signal_received := False\<rparr>)) = []"
    if "\<forall>(q, st) \<in> set (pending s). 0 < q"
    using that by (intro waitpid_loop_drains) simp
  moreover have "waitpid_loop s = waitpid_loop (child_status_jobs_from pid status 0 (s\<lparr>pending := rest\<rparr>))"
    if "pending s = (pid, status) # rest" and "0 < pid"
    using that by (subst waitpid_loop.simps) simp
  ultimately show ?thesis
    using assms child_status_jobs_from_status [of 0 i s pid status]
      child_status_jobs_from_printers_unchanged [of status pid 0 s]
      child_status_jobs_from_idles [of 0 i s pid _ status]
    by (simp add: handle_child_status_updates_def)
qed

theorem child_status_dispatch_witness:
  "j_status (job_spool (child_status_jobs_from 100 (Stopped 19) 0 s_job1) 0) = JOB_PAUSED
   \<and> printer_registry (child_status_jobs_from 100 (Stopped 19) 0 s_job1) = printer_registry s_job1
   \<and> j_status (job_spool (child_status_jobs_from 101 Continued 0 s_paused) 1) = JOB_RUNNING
   \<and> printer_registry (child_status_jobs_from 101 Continued 0 s_paused) = printer_registry s_paused
   \<and> j_status (job_spool (child_status_jobs_from 100 (Exited 1) 0 s_job1) 0) = JOB_FINISHED
   \<and> p_status (printer_registry (child_status_jobs_from 100 (Exited 1) 0 s_job1) 0) = PRINTER_IDLE
   \<and> j_status (job_spool (child_status_jobs_from 101 (Signaled 15) 0 s_job1) 1) = JOB_ABORTED
   \<and> p_status (printer_registry (child_status_jobs_from 101 (Signaled 15) 0 s_job1) 1) = PRINTER_IDLE
   \<and> pending (handle_child_status_updates demo_env (child_changes 100 (Exited 0) s_job1)) = []"
  using child_status_dispatch [of 0 s_job1 100 "Stopped 19" "[]" demo_env]
    child_status_dispatch [of 1 s_paused 101 Continued "[]" demo_env]
    child_status_dispatch [of 0 s_job1 100 "Exited 1" "[]" demo_env]
    child_status_dispatch [of 1 s_job1 101 "Signaled 15" "[]" demo_env]
    child_status_dispatch [of 0 "child_changes 100 (Exited 0) s_job1" 100 "Exited 0" "[]" demo_env]
  by (auto simp: s_job1_fields s_paused_fields child_changes_def sigchld_handler_def)

text \<open>
  C3. The code does not do what the claim says: the three operations use the number as an
  index into the table. After the sweep of the session the only live job has id 1 and
  sits at index 0: \<^verbatim>\<open>pause 1\<close> and \<^verbatim>\<open>cancel 1\<close> are refused, and \<^verbatim>\<open>pause 0\<close> stops the
  pipeline of the job whose id is 1.
\<close>

theorem job_commands_index_the_table:
  "job_count s_swept = 1
   \<and> j_id (job_spool s_swept 0) = 1
   \<and> j_status (job_spool s_swept 0) = JOB_RUNNING
   \<and> fst (pause_job demo_env 1 s_swept) = - 1
   \<and> fst (cancel_job 1 s_swept) = - 1
   \<and> out (snd (run_cli_line demo_env ''pause 1'' s_swept)) =
       out s_swept @ [''Error: Failed to pause job 1'']
   \<and> signals (snd (run_cli_line demo_env ''pause 0'' s_swept)) =
       signals s_swept @ [(101, SIGSTOP)]"
  by (simp add: s_swept_fields model_defs model_simps cong: let_weak_cong)

text \<open>
  C4. The code does not do what the claim says: \<^verbatim>\<open>select_compatible_printer\<close> returns the
  first idle printer in registry order that is compatible in either way. With the idle
  printers alice (pdf) and bob (ps) and the conversion from ps to pdf, a ps file goes to
  alice through \<^verbatim>\<open>ps2pdf\<close> although bob prints ps directly.
\<close>

theorem first_idle_compatible_printer_wins:
  "p_status (printer_registry s_both_on 0) = PRINTER_IDLE
   \<and> p_type (printer_registry s_both_on 0) = type_pdf
   \<and> p_status (printer_registry s_both_on 1) = PRINTER_IDLE
   \<and> p_type (printer_registry s_both_on 1) = type_ps
   \<and> select_compatible_printer demo_env (Some type_ps) s_both_on = Some 0
   \<and> events (snd (run_cli_line demo_env ''print b.ps'' s_both_on)) =
       events s_both_on @
         [SF_job_created 0 (Some ''b.ps'') ''ps'', SF_job_status 0 JOB_CREATED,
          SF_job_status 0 JOB_RUNNING, SF_printer_status ''alice'' PRINTER_BUSY,
          SF_job_started 0 ''alice'' 100 [''ps2pdf''], SF_cmd_ok]"
  by (simp add: s_both_on_fields model_defs model_simps cong: let_weak_cong)

text \<open>
  C5, as amended. At every point between two operations and for every live job: if the job
  is running or paused its \<^verbatim>\<open>pgid\<close> is set, and if it is created its \<^verbatim>\<open>pgid\<close> is the
  sentinel; no live job is in the state deleted. The transitions into finished and aborted,
  made by the dispatcher and by \<^verbatim>\<open>cancel_job\<close>, leave the \<^verbatim>\<open>pgid\<close> as it is, so that a
  finished job and a job cancelled after its launch keep the pid of their pipeline; only
  \<^verbatim>\<open>cleanup_job\<close>, which makes the slot deleted, resets it to the sentinel.
\<close>

theorem pgid_of_live_jobs:
  assumes "reachable env s" and "i < job_count s"
  shows "(j_status (job_spool s i) = JOB_RUNNING \<or> j_status (job_spool s i) = JOB_PAUSED
            \<longrightarrow> pgid (job_spool s i) \<noteq> - 1)
       \<and> (j_status (job_spool s i) = JOB_CREATED \<longrightarrow> pgid (job_spool s i) = - 1)
       \<and> j_status (job_spool s i) \<noteq> JOB_DELETED
       \<and> pgid (job_spool (child_status_jobs_from pid status 0 s) i) = pgid (job_spool s i)
       \<and> pgid (job_spool (snd (cancel_job job_id s)) i) = pgid (job_spool s i)
       \<and> pgid (job_spool (cleanup_job i s) i) = - 1"
proof -
  have "job_ok (job_spool s i)"
    using reachable_jobs_wf [OF assms(1)] assms(2) by (simp add: jobs_wf_def)
  then show ?thesis
    by (auto simp: job_ok_def child_status_jobs_from_pgid cancel_job_pgid cleanup_job_def)
qed

theorem pgid_of_live_jobs_witness:
  "reachable demo_env s_paused
   \<and> j_status (job_spool s_paused 0) = JOB_RUNNING \<and> pgid (job_spool s_paused 0) \<noteq> - 1
   \<and> j_status (job_spool s_paused 1) = JOB_PAUSED \<and> pgid (job_spool s_paused 1) \<noteq> - 1
   \<and> reachable demo_env s_waiting
   \<and> j_status (job_spool s_waiting 0) = JOB_CREATED \<and> pgid (job_spool s_waiting 0) = - 1
   \<and> pgid (job_spool (child_status_jobs_from 100 (Exited 0) 0 s_paused) 0) = 100
   \<and> pgid (job_spool (snd (cancel_job 1 s_paused)) 1) = 101
   \<and> pgid (job_spool (cleanup_job 0 s_paused) 0) = - 1"
  using pgid_of_live_jobs [OF session_reachable(5), of 0 100 "Exited 0" 1]
    pgid_of_live_jobs [OF session_reachable(5), of 1 100 "Exited 0" 1]
    pgid_of_live_jobs [OF session_reachable(6), of 0 100 "Exited 0" 1]
  by (simp add: session_reachable s_paused_fields s_waiting_fields)

text \<open>
  C5 as stated fails: in the session, after the first job's pipeline has exited, the job is
  live and finished and still has the pid 100; and when the running second job is
  cancelled it is aborted and still has the pid 101.
\<close>

theorem finished_job_keeps_pgid_counterexample:
  "reachable demo_env s_job0_done
   \<and> 0 < job_count s_job0_done
   \<and> j_status (job_spool s_job0_done 0) = JOB_FINISHED
   \<and> pgid (job_spool s_job0_done 0) = 100
   \<and> j_status (job_spool (snd (cancel_job 1 s_job1)) 1) = JOB_ABORTED
   \<and> pgid (job_spool (snd (cancel_job 1 s_job1)) 1) = 101"
  by (simp add: session_reachable s_job0_done_fields s_job1_fields cancel_job_def Let_def)

text \<open>
  C6, as amended. When \<^verbatim>\<open>submit_print_job\<close> returns an error, the job count, the printer
  registry (so no printer has become busy) and every live job slot are as before the call,
  and so are the type registry, the clock, the children not yet reaped, the flag of the
  signal handler, the signals sent and the lines printed. When the error is any other than
  a failed launch of the pipeline (no path, a full table, an unknown file type, an explicit
  printer that is not idle or not compatible, or any error at all when no printer was
  named), the whole state is as before the call.
\<close>

theorem submit_print_job_error_effect:
  assumes "fst (submit_print_job env file_path printer s) \<noteq> 0"
  shows "job_count (snd (submit_print_job env file_path printer s)) = job_count s
    \<and> number_of_registered_printers (snd (submit_print_job env file_path printer s))
        = number_of_registered_printers s
    \<and> printer_registry (snd (submit_print_job env file_path printer s)) = printer_registry s
    \<and> (\<forall>i < job_count s. job_spool (snd (submit_print_job env file_path printer s)) i = job_spool s i)
    \<and> registry (snd (submit_print_job env file_path printer s)) = registry s
    \<and> clock (snd (submit_print_job env file_path printer s)) = clock s
    \<and> pending (snd (submit_print_job env file_path printer s)) = pending s
    \<and> child_signal_received (snd (submit_print_job env file_path printer s))
        = child_signal_received s
    \<and> signals (snd (submit_print_job env file_path printer s)) = signals s
    \<and> out (snd (submit_print_job env file_path printer s)) = out s
    \<and> (file_path = None \<or> MAX_JOBS env \<le> job_count s
          \<or> infer_file_type env (registry s) file_path = None
          \<or> printer = None
          \<or> (\<exists>p. printer = Some p \<and> p_status (printer_registry s p) \<noteq> PRINTER_IDLE)
          \<or> (\<exists>p from_type. printer = Some p
                \<and> infer_file_type env (registry s) file_path = Some from_type
                \<and> ft_addr (p_type (printer_registry s p)) \<noteq> ft_addr from_type
                \<and> find_conversion_path env (registry s) (ft_name from_type)
                     (ft_name (p_type (printer_registry s p))) = None)
        \<longrightarrow> snd (submit_print_job env file_path printer s) = s)"
  using assms
  by (auto simp: submit_print_job_def Let_def start_conversion_pipeline_def
      split: option.splits list.splits if_splits)

text \<open>
  Two errors in the state after the sweep: a submission to the idle printer alice whose
  \<^verbatim>\<open>fork\<close> fails, and a submission to the busy printer bob, which changes nothing at all.
\<close>

theorem submit_print_job_error_effect_witness:
  "fst (submit_print_job demo_env (Some ''a.pdf'') (Some 0) s_fork_fails) = - 1
   \<and> job_count (snd (submit_print_job demo_env (Some ''a.pdf'') (Some 0) s_fork_fails)) = 1
   \<and> printer_registry (snd (submit_print_job demo_env (Some ''a.pdf'') (Some 0) s_fork_fails))
       = printer_registry s_fork_fails
   \<and> p_status (printer_registry (snd (submit_print_job demo_env (Some ''a.pdf'') (Some 0)
       s_fork_fails)) 0) = PRINTER_IDLE
   \<and> job_spool (snd (submit_print_job demo_env (Some ''a.pdf'') (Some 0) s_fork_fails)) 0
       = job_spool s_fork_fails 0
   \<and> out (snd (submit_print_job demo_env (Some ''a.pdf'') (Some 0) s_fork_fails))
       = out s_fork_fails
   \<and> p_status (printer_registry s_swept 1) = PRINTER_BUSY
   \<and> fst (submit_print_job demo_env (Some ''a.pdf'') (Some 1) s_swept) = - 1
   \<and> snd (submit_print_job demo_env (Some ''a.pdf'') (Some 1) s_swept) = s_swept"
proof -
  have err: "fst (submit_print_job demo_env (Some ''a.pdf'') (Some 0) s_fork_fails) = - 1"
    by (simp add: s_fork_fails_fields s_swept_fields model_defs model_simps cong: let_weak_cong)
  then have ne: "fst (submit_print_job demo_env (Some ''a.pdf'') (Some 0) s_fork_fails) \<noteq> 0"
    by simp
  have busy: "p_status (printer_registry s_swept 1) = PRINTER_BUSY"
    by (simp add: s_swept_fields)
  have err': "fst (submit_print_job demo_env (Some ''a.pdf'') (Some 1) s_swept) = - 1"
    by (simp add: s_swept_fields model_defs model_simps cong: let_weak_cong)
  then have ne': "fst (submit_print_job demo_env (Some ''a.pdf'') (Some 1) s_swept) \<noteq> 0"
    by simp
  have "snd (submit_print_job demo_env (Some ''a.pdf'') (Some 1) s_swept) = s_swept"
    using submit_print_job_error_effect [OF ne'] busy by simp
  with submit_print_job_error_effect [OF ne] err err' busy show ?thesis
    by (simp add: s_fork_fails_fields s_swept_fields)
qed

text \<open>
  C6 as stated fails on the failed launch: the job's metadata is stored and
  \<^verbatim>\<open>sf_job_created\<close> is called before the pipeline is started, and the error return undoes
  neither. In the state after the sweep, with a \<^verbatim>\<open>fork\<close> that fails, the submission to the
  idle printer alice returns \<open>-1\<close>, the event log has grown by the creation of job 1, and the
  slot at index \<^verbatim>\<open>job_count\<close>, which held the old copy of the job of \<^verbatim>\<open>b.ps\<close>, holds the
  metadata of the refused job.
\<close>

theorem failed_launch_leaves_trace_counterexample:
  "fst (submit_print_job demo_env (Some ''a.pdf'') (Some 0) s_fork_fails) = - 1
   \<and> events (snd (submit_print_job demo_env (Some ''a.pdf'') (Some 0) s_fork_fails))
       = events s_fork_fails @ [SF_job_created 1 (Some ''a.pdf'') ''pdf'']
   \<and> job_count s_fork_fails = 1
   \<and> input_file_path (job_spool s_fork_fails 1) = Some ''b.ps''
   \<and> job_spool (snd (submit_print_job demo_env (Some ''a.pdf'') (Some 0) s_fork_fails)) 1
       = \<lparr>j_id = 1, input_file_path = Some ''a.pdf'', target_printer = Some 0,
          j_status = JOB_RUNNING, pgid = - 1, created_at = 15, status_changed_at = 15\<rparr>
   \<and> snd (submit_print_job demo_env (Some ''a.pdf'') (Some 0) s_fork_fails) \<noteq> s_fork_fails"
proof -
  have ev: "events (snd (submit_print_job demo_env (Some ''a.pdf'') (Some 0) s_fork_fails))
      = events s_fork_fails @ [SF_job_created 1 (Some ''a.pdf'') ''pdf'']"
    by (simp add: s_fork_fails_fields s_swept_fields model_defs model_simps cong: let_weak_cong)
  then have "events (snd (submit_print_job demo_env (Some ''a.pdf'') (Some 0) s_fork_fails))
      \<noteq> events s_fork_fails"
    by simp
  then have "snd (submit_print_job demo_env (Some ''a.pdf'') (Some 0) s_fork_fails) \<noteq> s_fork_fails"
    by auto
  moreover have "fst (submit_print_job demo_env (Some ''a.pdf'') (Some 0) s_fork_fails) = - 1"
    by (simp add: s_fork_fails_fields s_swept_fields model_defs model_simps cong: let_weak_cong)
  moreover have "job_spool (snd (submit_print_job demo_env (Some ''a.pdf'') (Some 0) s_fork_fails)) 1
       = \<lparr>j_id = 1, input_file_path = Some ''a.pdf'', target_printer = Some 0,
          j_status = JOB_RUNNING, pgid = - 1, created_at = 15, status_changed_at = 15\<rparr>"
    by (simp add: s_fork_fails_fields s_swept_fields model_defs model_simps cong: let_weak_cong)
  ultimately show ?thesis
    using ev by (simp add: s_fork_fails_fields s_swept_fields)
qed

text \<open>
  C7, as amended. A line is skipped, with the state unchanged and hence without a command
  dispatched and without \<^verbatim>\<open>cmd_ok\<close> or \<^verbatim>\<open>cmd_error\<close>, if and only if it is empty or its
  first character is white space; this covers the blank and the white-space-only lines and
  also every line with leading white space. Every other line has at least one token and
  produces exactly one \<^verbatim>\<open>cmd_ok\<close> or \<^verbatim>\<open>cmd_error\<close>; unless its first token is
  \<^verbatim>\<open>quit\<close>, which the loop handles itself, its tokens are dispatched to the command
  handler and the sweep follows.
\<close>

theorem run_cli_line_skip_iff:
  "(l = [] \<or> isspace (hd l) \<longrightarrow> run_cli_line env l s = (None, s))
   \<and> (\<not> (l = [] \<or> isspace (hd l)) \<longrightarrow>
        split_input_line_into_tokens l \<noteq> []
        \<and> cmd_events (snd (run_cli_line env l s)) = cmd_events s + 1
        \<and> (hd (split_input_line_into_tokens l) \<noteq> ''quit'' \<longrightarrow>
             run_cli_line env l s =
               (None, delete_expired_jobs_if_needed
                        (handle_user_command env (split_input_line_into_tokens l) s))))
   \<and> (cmd_events (snd (run_cli_line env l s)) = cmd_events s \<longleftrightarrow> l = [] \<or> isspace (hd l))"
proof (cases "l = [] \<or> isspace (hd l)")
  case True
  then have "list_all isspace l \<or> (l \<noteq> [] \<and> isspace (hd l))"
    by auto
  then have "run_cli_line env l s = (None, s)"
    by (simp add: run_cli_line_def)
  then show ?thesis
    using True by simp
next
  case False
  then have ne: "l \<noteq> []" and hd: "\<not> isspace (hd l)"
    by auto
  then have nall: "\<not> list_all isspace l"
    by (cases l) auto
  have tok: "split_input_line_into_tokens l \<noteq> []"
    using ne hd by (rule split_input_line_into_tokens_nonempty)
  then have nth: "split_input_line_into_tokens l ! 0 = hd (split_input_line_into_tokens l)"
    by (simp add: hd_conv_nth)
  have count: "cmd_events (snd (run_cli_line env l s)) = cmd_events s + 1"
    using nall ne hd tok handle_user_command_cmd_events [OF tok, of env s]
    by (simp add: run_cli_line_def Let_def)
  have disp: "run_cli_line env l s =
      (None, delete_expired_jobs_if_needed
               (handle_user_command env (split_input_line_into_tokens l) s))"
    if "hd (split_input_line_into_tokens l) \<noteq> ''quit''"
    using that nall ne hd tok nth by (simp add: run_cli_line_def Let_def)
  show ?thesis
    using False tok count disp by simp
qed

lemma tokens_of_help:
  "split_input_line_into_tokens ''help'' = [''help'']"
  "split_input_line_into_tokens '' help'' = [''help'']"
  by (simp_all add: split_input_line_into_tokens_def split_input_line_into_tokens_from.simps
      isspace_def MAX_COMMAND_TOKENS_def Let_def)

theorem run_cli_line_skip_iff_witness:
  "run_cli_line demo_env [] s_init = (None, s_init)
   \<and> run_cli_line demo_env ''   '' s_init = (None, s_init)
   \<and> split_input_line_into_tokens ''help'' \<noteq> []
   \<and> cmd_events (snd (run_cli_line demo_env ''help'' s_init)) = cmd_events s_init + 1
   \<and> run_cli_line demo_env ''help'' s_init =
       (None, delete_expired_jobs_if_needed
                (handle_user_command demo_env (split_input_line_into_tokens ''help'') s_init))"
  using run_cli_line_skip_iff [of "[]" demo_env s_init]
    run_cli_line_skip_iff [of "''   ''" demo_env s_init]
    run_cli_line_skip_iff [of "''help''" demo_env s_init]
  by (auto simp: isspace_def tokens_of_help)

text \<open>
  C7 as stated fails: the line \<^verbatim>\<open> help\<close> has the token \<^verbatim>\<open>help\<close> and is not white space
  only, and it is skipped.
\<close>

theorem leading_space_line_skipped_counterexample:
  "split_input_line_into_tokens '' help'' = [''help'']
   \<and> \<not> list_all isspace '' help''
   \<and> run_cli_line demo_env '' help'' s_init = (None, s_init)"
  by (simp add: tokens_of_help run_cli_line_def isspace_def)

text \<open>
  C8. The code does not do what the claim says for \<^verbatim>\<open>cancel\<close>, \<^verbatim>\<open>pause\<close> and \<^verbatim>\<open>resume\<close>:
  without an argument each of them prints its own error line, which is not the line
  \<^verbatim>\<open>Wrong number of args (given: 0, required: 1) for CLI command '...'\<close>; the command is
  reported as failed. The handler of \<^verbatim>\<open>enable\<close>, like the other handlers that count their
  arguments, prints that line.
\<close>

theorem wrong_argument_count_of_job_commands:
  "out (handle_user_command env [''cancel''] s) =
     out s @ [''Error: 'cancel' requires 1 argument: <job_id>'']
   \<and> out (handle_user_command env [''pause''] s) =
     out s @ [''Error: 'pause' requires 1 argument: <job_id>'']
   \<and> out (handle_user_command env [''resume''] s) =
     out s @ [''Error: 'resume' requires 1 argument: <job_id>'']
   \<and> events (handle_user_command env [''cancel''] s) =
     events s @ [SF_cmd_error (''Invalid arguments for 'cancel'' @ squote)]
   \<and> ''Error: 'cancel' requires 1 argument: <job_id>''
       \<noteq> ''Wrong number of args (given: 0, required: 1) for CLI command 'cancel'' @ squote
   \<and> out (handle_user_command env [''enable''] s) =
     out s @ [''Wrong number of args (given: 0, required: 1) for CLI command 'enable'' @ squote]"
  by (simp add: handle_user_command_def handle_cancel_command_def handle_pause_command_def
      handle_resume_command_def handle_enable_command_def string_of_int_def
      string_of_nat.simps)

text \<open>
  C9. For a declared printer, \<^verbatim>\<open>enable\<close> sets the status to idle whatever it was, sends the
  printer status notification and leaves the jobs alone; then the scheduler runs and the
  command is reported as done. In the session the command turns the busy printer alice idle
  while her job is still running.
\<close>

theorem enable_sets_idle:
  assumes "get_printer_by_name n s = Some p"
  shows "\<exists>s1. handle_enable_command env [''enable'', n] s = sf SF_cmd_ok (try_scheduling_jobs env s1)
           \<and> p_status (printer_registry s1 p) = PRINTER_IDLE
           \<and> (\<forall>q. q \<noteq> p \<longrightarrow> printer_registry s1 q = printer_registry s q)
           \<and> job_spool s1 = job_spool s \<and> job_count s1 = job_count s
           \<and> events s1 = events s @ [SF_printer_status n PRINTER_IDLE]
           \<and> (\<exists>es. events (handle_enable_command env [''enable'', n] s) =
                   events s @ SF_printer_status n PRINTER_IDLE # es)"
proof -
  have name: "p_name (printer_registry s p) = n"
    using assms get_printer_by_name_from_Some [of n 0 s p] by (simp add: get_printer_by_name_def)
  let ?s1 = "fprintf_out (printer_line env (int (get_printer_count s) - 1)
               ((printer_registry s p)\<lparr>p_status := PRINTER_IDLE\<rparr>))
             (sf (SF_printer_status n PRINTER_IDLE)
               (upd_printer p (\<lambda>q. q\<lparr>p_status := PRINTER_IDLE\<rparr>) s))"
  have eq: "handle_enable_command env [''enable'', n] s = sf SF_cmd_ok (try_scheduling_jobs env ?s1)"
    using assms name by (simp add: handle_enable_command_def Let_def get_printer_count_def)
  obtain es where "events (try_scheduling_jobs env ?s1) = events ?s1 @ es"
    using try_scheduling_jobs_events by blast
  then have "\<exists>es. events (handle_enable_command env [''enable'', n] s) =
      events s @ SF_printer_status n PRINTER_IDLE # es"
    by (simp add: eq)
  then show ?thesis
    using eq by (intro exI [of _ ?s1]) simp
qed

theorem enable_sets_idle_witness:
  "get_printer_by_name ''alice'' s_job1 = Some 0
   \<and> p_status (printer_registry s_job1 0) = PRINTER_BUSY
   \<and> j_status (job_spool s_job1 0) = JOB_RUNNING
   \<and> target_printer (job_spool s_job1 0) = Some 0
   \<and> (\<exists>s1. handle_enable_command demo_env [''enable'', ''alice''] s_job1
             = sf SF_cmd_ok (try_scheduling_jobs demo_env s1)
           \<and> p_status (printer_registry s1 0) = PRINTER_IDLE
           \<and> job_spool s1 = job_spool s_job1
           \<and> events s1 = events s_job1 @ [SF_printer_status ''alice'' PRINTER_IDLE])
   \<and> p_status (printer_registry (handle_enable_command demo_env [''enable'', ''alice''] s_job1) 0)
       = PRINTER_IDLE"
proof -
  have found: "get_printer_by_name ''alice'' s_job1 = Some 0"
    by (simp add: get_printer_by_name_def get_printer_by_name_from.simps s_job1_fields)
  have final: "p_status (printer_registry
      (handle_enable_command demo_env [''enable'', ''alice''] s_job1) 0) = PRINTER_IDLE"
    by (simp add: s_job1_fields model_defs model_simps cong: let_weak_cong)
  from enable_sets_idle [OF found, of demo_env] obtain s1 where
    "handle_enable_command demo_env [''enable'', ''alice''] s_job1
       = sf SF_cmd_ok (try_scheduling_jobs demo_env s1)"
    "p_status (printer_registry s1 0) = PRINTER_IDLE"
    "job_spool s1 = job_spool s_job1"
    "events s1 = events s_job1 @ [SF_printer_status ''alice'' PRINTER_IDLE]"
    by blast
  then show ?thesis
    using found final by (auto simp: s_job1_fields)
qed

text \<open>
  C10. A successful submission stores the job in the slot at the current job count and
  gives it that count as its id. After the sweep of the session has removed job 0, the next
  submission gets id 1, the id of the live job that was moved to index 0.
\<close>

theorem submit_print_job_id_is_job_count:
  "(fst (submit_print_job env file_path printer s) = 0 \<longrightarrow>
      j_id (job_spool (snd (submit_print_job env file_path printer s)) (job_count s))
        = int (job_count s)
      \<and> job_count (snd (submit_print_job env file_path printer s)) = job_count s + 1)
   \<and> job_count s_job_again = 2
   \<and> j_id (job_spool s_job_again 0) = 1
   \<and> j_id (job_spool s_job_again 1) = 1"
  using submit_print_job_success [of env file_path printer s]
  by (auto simp: s_job_again_fields prod_eq_iff)

theorem submit_print_job_id_is_job_count_witness:
  "fst (submit_print_job demo_env (Some ''a.pdf'') None s_swept) = 0
   \<and> job_count s_swept = 1
   \<and> j_id (job_spool (snd (submit_print_job demo_env (Some ''a.pdf'') None s_swept)) 1) = 1
   \<and> job_count (snd (submit_print_job demo_env (Some ''a.pdf'') None s_swept)) = 2"
proof -
  have ok: "fst (submit_print_job demo_env (Some ''a.pdf'') None s_swept) = 0"
    by (simp add: s_swept_fields submit_print_job_def demo_env_def demo_infer_file_type_def
        demo_find_type_def Let_def)
  from submit_print_job_id_is_job_count [of demo_env "Some ''a.pdf''" None s_swept] ok
  show ?thesis
    by (simp add: s_swept_fields)
qed

end
